theory Spec2Isabelle
  imports Complex_Main "HOL-Library.Sublist"
begin

section \<open>Python values and the library functions the engine calls\<close>

text \<open>
  A user is a Python dictionary from field names to arbitrary values, as \<open>json.load\<close>
  produces them. Python's unbounded integers are \<open>int\<close>. A float of the input is a finite
  double, taken as the rational it denotes, an infinity or NaN (\<open>json.load\<close> yields
  these for \<open>Infinity\<close>, \<open>1e400\<close> and \<open>NaN\<close>). The scores the engine computes are
  exact rationals: the rounding error of float arithmetic and the overflow of a float
  product to an infinity are not modelled, only the \<open>OverflowError\<close> of an integer true
  division whose quotient is beyond the largest double.
\<close>

datatype pyfloat = Finite rat | PosInf | NegInf | NaN

datatype pyval =
    PNone
  | PBool bool
  | PInt int
  | PFloat pyfloat
  | PStr string
  | PList "pyval list"
  | PDict "(string \<times> pyval) list"

datatype pyerror = ValueError | TypeError | OverflowError | KeyError | OperationalError

type_synonym pydict = "string \<rightharpoonup> pyval"

text \<open>
  An aware datetime is its instant: microseconds since the epoch, in UTC. A reference
  time handed to the engine is aware or naive (no \<open>tzinfo\<close>, a wall-clock reading).
\<close>

type_synonym datetime = int

datatype pydatetime = Aware datetime | Naive int

text \<open>
  The functions of Python's standard library that the code calls are parameters of the
  model: \<open>str_of v\<close> is \<open>str(v)\<close>, \<open>int_of_str s\<close> is \<open>int(s)\<close> on a string,
  \<open>fromisoformat_utc s\<close> is
  \<open>datetime.fromisoformat(s).astimezone(timezone.utc)\<close>, \<open>strptime_ymd s\<close> is
  \<open>datetime.strptime(s, "%Y-%m-%d").replace(tzinfo=timezone.utc)\<close>, each \<open>None\<close>
  where the call raises, and \<open>utcnow\<close> is \<open>datetime.now(timezone.utc)\<close>.
\<close>

record stdlib =
  str_of :: "pyval \<Rightarrow> string"
  int_of_str :: "string \<Rightarrow> int option"
  fromisoformat_utc :: "string \<Rightarrow> datetime option"
  strptime_ymd :: "string \<Rightarrow> datetime option"
  utcnow :: datetime

text \<open>\<open>d.get(k)\<close> and \<open>d.get(k, default)\<close>.\<close>

definition get :: "pydict \<Rightarrow> string \<Rightarrow> pyval" where
  "get d k = (case d k of None \<Rightarrow> PNone | Some v \<Rightarrow> v)"

definition get_default :: "pydict \<Rightarrow> string \<Rightarrow> pyval \<Rightarrow> pyval" where
  "get_default d k dflt = (case d k of None \<Rightarrow> dflt | Some v \<Rightarrow> v)"

text \<open>\<open>bool(v)\<close>: Python's truth value. Of the floats only zero is false.\<close>

fun truthy :: "pyval \<Rightarrow> bool" where
  "truthy PNone = False"
| "truthy (PBool b) = b"
| "truthy (PInt n) = (n \<noteq> 0)"
| "truthy (PFloat f) = (f \<noteq> Finite 0)"
| "truthy (PStr s) = (s \<noteq> [])"
| "truthy (PList xs) = (xs \<noteq> [])"
| "truthy (PDict kvs) = (kvs \<noteq> [])"

text \<open>\<open>a or b\<close>.\<close>

definition py_or :: "pyval \<Rightarrow> pyval \<Rightarrow> pyval" where
  "py_or a b = (if truthy a then a else b)"

text \<open>
  \<open>int(v)\<close>: a finite float is truncated towards zero, NaN raises \<open>ValueError\<close>, an
  infinity raises \<open>OverflowError\<close>, a string is parsed.
\<close>

fun py_int :: "stdlib \<Rightarrow> pyval \<Rightarrow> pyerror + int" where
  "py_int L PNone = Inl TypeError"
| "py_int L (PBool b) = Inr (if b then 1 else 0)"
| "py_int L (PInt n) = Inr n"
| "py_int L (PFloat (Finite f)) = Inr (if 0 \<le> f then \<lfloor>f\<rfloor> else \<lceil>f\<rceil>)"
| "py_int L (PFloat NaN) = Inl ValueError"
| "py_int L (PFloat PosInf) = Inl OverflowError"
| "py_int L (PFloat NegInf) = Inl OverflowError"
| "py_int L (PStr s) = (case int_of_str L s of None \<Rightarrow> Inl ValueError | Some n \<Rightarrow> Inr n)"
| "py_int L (PList xs) = Inl TypeError"
| "py_int L (PDict kvs) = Inl TypeError"

text \<open>
  \<open>a / b\<close> on two integers with \<open>b\<close> a positive constant: the quotient as a float, or
  \<open>OverflowError\<close> when it rounds beyond the largest double.
\<close>

definition FLOAT_OVERFLOW :: rat where
  "FLOAT_OVERFLOW = 2 ^ 1024 - 2 ^ 970"

definition py_truediv :: "int \<Rightarrow> int \<Rightarrow> pyerror + rat" where
  "py_truediv a b =
     (if FLOAT_OVERFLOW \<le> \<bar>of_int a / of_int b\<bar> then Inl OverflowError
      else Inr (of_int a / of_int b))"

text \<open>\<open>round(x, 2)\<close>: to the nearest hundredth, a tie to the even one.\<close>

definition round_half_even :: "rat \<Rightarrow> int" where
  "round_half_even x =
     (let f = \<lfloor>x\<rfloor>; d = x - of_int f
      in if d < 1 / 2 then f else if 1 / 2 < d then f + 1 else if even f then f else f + 1)"

definition round2 :: "rat \<Rightarrow> rat" where
  "round2 x = of_int (round_half_even (x * 100)) / 100"

text \<open>\<open>(a - b).days\<close> of two aware datetimes: whole days, rounded down.\<close>

definition timedelta_days :: "datetime \<Rightarrow> datetime \<Rightarrow> int" where
  "timedelta_days a b = (a - b) div 86400000000"

section \<open>trust\_score.py\<close>

definition MAX_SCORE :: rat where "MAX_SCORE = 100"
definition PROFILE_MAX :: rat where "PROFILE_MAX = 30"
definition VERIFICATION_MAX :: rat where "VERIFICATION_MAX = 40"
definition ACTIVITY_MAX :: rat where "ACTIVITY_MAX = 30"
definition PHOTOS_MAX_POINTS :: rat where "PHOTOS_MAX_POINTS = 20"
definition PHOTOS_CAP :: int where "PHOTOS_CAP = 6"
definition BIO_POINTS :: rat where "BIO_POINTS = 5"
definition INTERESTS_POINTS :: rat where "INTERESTS_POINTS = 5"
definition SELFIE_POINTS :: rat where "SELFIE_POINTS = 20"
definition ID_POINTS :: rat where "ID_POINTS = 20"
definition ACTIVITY_LOGIN_STREAK_MAX :: rat where "ACTIVITY_LOGIN_STREAK_MAX = 20"
definition ACTIVITY_STREAK_CAP_DAYS :: int where "ACTIVITY_STREAK_CAP_DAYS = 30"
definition ACTIVITY_RESPONSE_MAX :: rat where "ACTIVITY_RESPONSE_MAX = 10"
definition ACTIVITY_REPORTS_PENALTY_MAX :: rat where "ACTIVITY_REPORTS_PENALTY_MAX = 8"
definition ACTIVITY_REPORTS_CAP :: int where "ACTIVITY_REPORTS_CAP = 5"
definition DECAY_PER_WEEK :: int where "DECAY_PER_WEEK = 5"

text \<open>\<open>BADGE_THRESHOLDS\<close>, one constant for each entry read.\<close>

definition VERIFIED_USER_MIN_SCORE :: rat where "VERIFIED_USER_MIN_SCORE = 85"
definition TRUSTED_MEMBER_MIN_SCORE :: rat where "TRUSTED_MEMBER_MIN_SCORE = 70"
definition ACTIVE_DATER_MIN_SCORE :: rat where "ACTIVE_DATER_MIN_SCORE = 60"
definition ACTIVE_DATER_RECENT_DAYS :: int where "ACTIVE_DATER_RECENT_DAYS = 7"

record activity_breakdown =
  streak_score :: rat
  response_score :: rat
  reports_penalty :: rat

record breakdown =
  activity_breakdown :: activity_breakdown
  last_active_at :: pyval

record TrustScoreResult =
  user_id :: pyval
  profile_score :: rat
  verification_score :: rat
  activity_score :: rat
  raw_total :: rat
  decay_applied :: rat
  final_score :: rat
  badges :: "string list"
  breakdown :: breakdown

text \<open>\<open>s.replace("Z", "+00:00")\<close> and \<open>s.endswith("Z")\<close>.\<close>

definition replace_Z :: "string \<Rightarrow> string" where
  "replace_Z s = concat (map (\<lambda>c. if c = CHR ''Z'' then ''+00:00'' else [c]) s)"

definition endswith_Z :: "string \<Rightarrow> bool" where
  "endswith_Z s = (s \<noteq> [] \<and> last s = CHR ''Z'')"

text \<open>
  \<open>parse_iso_datetime\<close>: \<open>None\<close> for \<open>None\<close>; a string goes to \<open>fromisoformat\<close>, then
  to \<open>strptime\<close>, and raises \<open>ValueError\<close> when both fail. On a value that is not a
  string \<open>s.endswith\<close> raises inside the \<open>try\<close>, \<open>strptime\<close> raises in the fallback,
  and the function raises \<open>ValueError\<close> as well.
\<close>

fun parse_iso_datetime :: "stdlib \<Rightarrow> pyval \<Rightarrow> pyerror + datetime option" where
  "parse_iso_datetime L PNone = Inr None"
| "parse_iso_datetime L (PStr s) =
     (case (if endswith_Z s then fromisoformat_utc L (replace_Z s) else fromisoformat_utc L s) of
        Some t \<Rightarrow> Inr (Some t)
      | None \<Rightarrow>
          (case strptime_ymd L s of
             Some t \<Rightarrow> Inr (Some t)
           | None \<Rightarrow> Inl ValueError))"
| "parse_iso_datetime L v = Inl ValueError"

definition compute_profile_score :: "stdlib \<Rightarrow> pydict \<Rightarrow> pyerror + rat" where
  "compute_profile_score L user =
     (case py_int L (py_or (get_default user ''photos'' (PInt 0)) (PInt 0)) of
        Inl e \<Rightarrow> Inl e
      | Inr photos \<Rightarrow>
          (case py_truediv (min photos PHOTOS_CAP) PHOTOS_CAP of
             Inl e \<Rightarrow> Inl e
           | Inr q \<Rightarrow>
               (let photos_points = q * PHOTOS_MAX_POINTS;
                    bio_points = (if truthy (get user ''bio'') then BIO_POINTS else 0);
                    interests_points =
                      (if truthy (get user ''interests'') then INTERESTS_POINTS else 0);
                    total = photos_points + bio_points + interests_points
                in Inr (round2 (max 0 (min PROFILE_MAX total))))))"

definition compute_verification_score :: "pydict \<Rightarrow> rat" where
  "compute_verification_score user =
     (let selfie = truthy (get user ''selfie_verified'');
          idv = truthy (get user ''id_verified'');
          total = (if selfie then SELFIE_POINTS else 0) + (if idv then ID_POINTS else 0)
      in round2 (max 0 (min VERIFICATION_MAX total)))"

definition compute_activity_score :: "stdlib \<Rightarrow> pydict \<Rightarrow> pyerror + rat \<times> activity_breakdown" where
  "compute_activity_score L user =
     (case py_int L (py_or (get_default user ''login_streak_days'' (PInt 0)) (PInt 0)) of
        Inl e \<Rightarrow> Inl e
      | Inr streak_days \<Rightarrow>
     (case py_truediv (min streak_days ACTIVITY_STREAK_CAP_DAYS) ACTIVITY_STREAK_CAP_DAYS of
        Inl e \<Rightarrow> Inl e
      | Inr sq \<Rightarrow>
     (case py_int L (py_or (get_default user ''response_rate_pct'' (PInt 0)) (PInt 0)) of
        Inl e \<Rightarrow> Inl e
      | Inr resp \<Rightarrow>
     (case py_int L (py_or (get_default user ''reports_received'' (PInt 0)) (PInt 0)) of
        Inl e \<Rightarrow> Inl e
      | Inr reports \<Rightarrow>
     (case py_truediv (min reports ACTIVITY_REPORTS_CAP) ACTIVITY_REPORTS_CAP of
        Inl e \<Rightarrow> Inl e
      | Inr rq \<Rightarrow>
          (let streak_score = sq * ACTIVITY_LOGIN_STREAK_MAX;
               resp_clamped = max 0 (min resp 100);
               resp_score = of_int resp_clamped / 100 * ACTIVITY_RESPONSE_MAX;
               reports_penalty = - rq * ACTIVITY_REPORTS_PENALTY_MAX;
               total = streak_score + resp_score + reports_penalty;
               total = max (- ACTIVITY_REPORTS_PENALTY_MAX) total;
               total = min ACTIVITY_MAX total
           in Inr (round2 total,
                   \<lparr>streak_score = round2 streak_score,
                    response_score = round2 resp_score,
                    reports_penalty = round2 reports_penalty\<rparr>)))))))"

text \<open>
  \<open>apply_inactivity_decay\<close> returns \<open>(new_score, decay_applied)\<close>. A \<open>None\<close> from
  the parser cannot reach the subtraction (\<open>None\<close> is not truthy); the branch is the
  \<open>TypeError\<close> the subtraction would raise. The parsed datetime is aware, so
  \<open>reference_dt - last_active_dt\<close> raises \<open>TypeError\<close> on a naive reference time.
\<close>

definition apply_inactivity_decay ::
  "stdlib \<Rightarrow> rat \<Rightarrow> pyval \<Rightarrow> pydatetime option \<Rightarrow> pyerror + rat \<times> rat" where
  "apply_inactivity_decay L base_score last_active_iso reference_dt =
     (let reference = (case reference_dt of None \<Rightarrow> Aware (utcnow L) | Some t \<Rightarrow> t)
      in if \<not> truthy last_active_iso
         then Inr (round2 (max 0 (min MAX_SCORE base_score)), 0)
         else (case parse_iso_datetime L last_active_iso of
                 Inl e \<Rightarrow> Inl e
               | Inr None \<Rightarrow> Inl TypeError
               | Inr (Some last_active_dt) \<Rightarrow>
                   (case reference of
                      Naive w \<Rightarrow> Inl TypeError
                    | Aware now \<Rightarrow>
                        (let days_inactive = timedelta_days now last_active_dt;
                             full_weeks = days_inactive div 7;
                             decay = full_weeks * DECAY_PER_WEEK;
                             new_score = max 0 (base_score - of_int decay);
                             new_score = min MAX_SCORE new_score
                         in Inr (round2 new_score, of_int decay)))))"

text \<open>\<open>assign_badges\<close> reads \<open>result.final_score\<close> only; the score is its argument.\<close>

definition assign_badges ::
  "stdlib \<Rightarrow> rat \<Rightarrow> pydict \<Rightarrow> pydatetime option \<Rightarrow> pyerror + string list" where
  "assign_badges L score user reference_dt =
     (let reference = (case reference_dt of None \<Rightarrow> Aware (utcnow L) | Some t \<Rightarrow> t);
          id_verified = truthy (get user ''id_verified'');
          b1 = (if id_verified \<and> VERIFIED_USER_MIN_SCORE \<le> score then [''Verified User''] else []);
          b2 = b1 @ (if TRUSTED_MEMBER_MIN_SCORE \<le> score then [''Trusted Member''] else []);
          last_active_iso = get user ''last_active_at''
      in case (if truthy last_active_iso
               then (case parse_iso_datetime L last_active_iso of
                       Inl e \<Rightarrow> Inl e
                     | Inr None \<Rightarrow> Inl TypeError
                     | Inr (Some last_active_dt) \<Rightarrow>
                         (case reference of
                            Naive w \<Rightarrow> Inl TypeError
                          | Aware now \<Rightarrow>
                              Inr (timedelta_days now last_active_dt
                                     \<le> ACTIVE_DATER_RECENT_DAYS)))
               else Inr False) of
           Inl e \<Rightarrow> Inl e
         | Inr recent \<Rightarrow>
             Inr (b2 @ (if ACTIVE_DATER_MIN_SCORE \<le> score \<and> recent then [''Active Dater''] else [])))"

definition compute_trust_score ::
  "stdlib \<Rightarrow> pydict \<Rightarrow> pydatetime option \<Rightarrow> pyerror + TrustScoreResult" where
  "compute_trust_score L user reference_dt =
     (let reference = (case reference_dt of None \<Rightarrow> Aware (utcnow L) | Some t \<Rightarrow> t);
          uid = get_default user ''user_id'' (PStr ''unknown'')
      in case compute_profile_score L user of
           Inl e \<Rightarrow> Inl e
         | Inr profile \<Rightarrow>
        (let verification = compute_verification_score user
         in case compute_activity_score L user of
              Inl e \<Rightarrow> Inl e
            | Inr (activity, activity_bd) \<Rightarrow>
           (let raw = profile + verification + activity;
                raw = max 0 (min MAX_SCORE raw);
                raw = round2 raw
            in case apply_inactivity_decay L raw (get user ''last_active_at'') (Some reference) of
                 Inl e \<Rightarrow> Inl e
               | Inr (final, decay) \<Rightarrow>
                   (case assign_badges L final user (Some reference) of
                      Inl e \<Rightarrow> Inl e
                    | Inr bs \<Rightarrow>
                        Inr \<lparr>user_id = uid,
                             profile_score = profile,
                             verification_score = verification,
                             activity_score = activity,
                             raw_total = raw,
                             decay_applied = decay,
                             final_score = final,
                             badges = bs,
                             breakdown = \<lparr>activity_breakdown = activity_bd,
                                          last_active_at = get user ''last_active_at''\<rparr>\<rparr>))))"

section \<open>db\_upsert.py\<close>

text \<open>The row that \<open>map_input_to_row\<close> builds for the table \<open>users\<close>.\<close>

record user_row =
  row_user_id :: string
  photos :: int
  bio_filled :: int
  interests_count :: int
  selfie_verified :: int
  id_verified :: int
  login_streak :: int
  response_rate_pct :: int
  reports_count :: int
  row_last_active_at :: pyval

text \<open>
  The dictionary literal is evaluated entry by entry: \<open>d["user_id"]\<close> raises
  \<open>KeyError\<close> first, then each \<open>int(...)\<close> may raise.
\<close>

definition map_input_to_row :: "stdlib \<Rightarrow> pydict \<Rightarrow> pyerror + user_row" where
  "map_input_to_row L d =
     (let interests_val = get d ''interests'';
          interests_count' =
            (case interests_val of
               PBool b \<Rightarrow> (if b then 5 else 0)
             | PInt n \<Rightarrow> max 0 (min 5 n)
             | _ \<Rightarrow> 0)
      in case d ''user_id'' of
           None \<Rightarrow> Inl KeyError
         | Some uid \<Rightarrow>
        (case py_int L (get_default d ''photos'' (PInt 0)) of
           Inl e \<Rightarrow> Inl e
         | Inr photos' \<Rightarrow>
        (case py_int L (py_or (py_or (get d ''login_streak_days'') (get d ''login_streak''))
                          (PInt 0)) of
           Inl e \<Rightarrow> Inl e
         | Inr login_streak' \<Rightarrow>
        (case py_int L (py_or (py_or (get d ''response_rate_pct'') (get d ''response_rate''))
                          (PInt 0)) of
           Inl e \<Rightarrow> Inl e
         | Inr response_rate_pct' \<Rightarrow>
        (case py_int L (py_or (py_or (get d ''reports_received'') (get d ''reports_count''))
                          (PInt 0)) of
           Inl e \<Rightarrow> Inl e
         | Inr reports_count' \<Rightarrow>
             Inr \<lparr>row_user_id = str_of L uid,
                  photos = photos',
                  bio_filled = (if truthy (get d ''bio'') then 1 else 0),
                  interests_count = interests_count',
                  selfie_verified = (if truthy (get d ''selfie_verified'') then 1 else 0),
                  id_verified = (if truthy (get d ''id_verified'') then 1 else 0),
                  login_streak = login_streak',
                  response_rate_pct = response_rate_pct',
                  reports_count = reports_count',
                  row_last_active_at = get d ''last_active_at''\<rparr>)))))"

text \<open>The demo user of \<open>db_upsert.py\<close>.\<close>

definition sample :: pydict where
  "sample =
     [''user_id'' \<mapsto> PStr ''user_28'', ''photos'' \<mapsto> PInt 4, ''bio'' \<mapsto> PBool True,
      ''interests'' \<mapsto> PBool True, ''selfie_verified'' \<mapsto> PBool True,
      ''id_verified'' \<mapsto> PBool True, ''login_streak_days'' \<mapsto> PInt 22,
      ''response_rate_pct'' \<mapsto> PInt 88, ''reports_received'' \<mapsto> PInt 3,
      ''last_active_at'' \<mapsto> PStr ''2025-12-09T14:35:00Z'']"

section \<open>worker\_debug.py\<close>

text \<open>
  Modelled from the spec: the table \<open>recompute_jobs\<close> is not created by
  \<open>create_schema.py\<close>; its columns are those of the specification's Recompute Job, which
  are the ones the queries of the worker name. The type of the timestamps is a parameter:
  the queries only compare and store them.
\<close>

record 't job =
  job_id :: int
  job_user_id :: string
  processing :: int
  processed :: int
  attempts :: int
  processor :: "string option"
  enqueued_at :: 't
  processed_at :: "'t option"
  last_error :: "string option"

text \<open>
  The database, as committed. \<open>worker_loop\<close> opens its connection with
  \<open>isolation_level=None\<close>: \<open>sqlite3\<close> then opens no transaction of its own, a statement
  outside \<open>BEGIN ... COMMIT\<close> is committed when it has run, and \<open>conn.commit()\<close> with no
  open transaction does nothing. A table is the list of its rows in the order in which
  the storage engine yields them; \<open>trust_scores\<close> has one row for each user id, and an
  audit row is \<open>(user_id, new_score, details, computed_at)\<close>, its \<open>id\<close> being its position.
  The table \<open>users\<close> and the foreign keys to it are not modelled.
\<close>

record 't db =
  recompute_jobs :: "'t job list"
  trust_scores :: "string \<rightharpoonup> rat \<times> 't"
  trust_score_audit :: "(string \<times> rat \<times> string \<times> 't) list"

text \<open>\<open>WHERE processed = 0 AND processing = 0\<close>.\<close>

definition pending :: "'t job \<Rightarrow> bool" where
  "pending j \<longleftrightarrow> processed j = 0 \<and> processing j = 0"

text \<open>
  \<open>SELECT ... WHERE processed = 0 AND processing = 0 ORDER BY enqueued_at ASC LIMIT 1\<close>.
  The query names no second sort key: among rows of equal \<open>enqueued_at\<close> the sort keeps
  the order in which the engine yields them.
\<close>

definition select_oldest_pending :: "('t::linorder) job list \<Rightarrow> 't job option" where
  "select_oldest_pending jobs =
     (case sort_key enqueued_at (filter pending jobs) of [] \<Rightarrow> None | j # _ \<Rightarrow> Some j)"

text \<open>
  \<open>UPDATE recompute_jobs SET processing = 1, processor = ?, attempts = attempts + 1
  WHERE id = ?\<close>.
\<close>

definition update_claimed :: "string \<Rightarrow> int \<Rightarrow> 't job list \<Rightarrow> 't job list" where
  "update_claimed worker_name jid jobs =
     map (\<lambda>j. if job_id j = jid
              then j\<lparr>processing := 1, processor := Some worker_name, attempts := attempts j + 1\<rparr>
              else j) jobs"

text \<open>The dictionary that \<open>claim_job\<close> returns.\<close>

record 't claimed =
  claimed_id :: int
  claimed_user_id :: string
  claimed_enqueued_at :: 't
  claimed_attempts :: int

text \<open>
  \<open>claim_job\<close>, as one step on the committed database: \<open>BEGIN IMMEDIATE\<close> to
  \<open>COMMIT\<close> runs under the write lock of the storage engine. \<open>busy\<close> says that
  \<open>BEGIN IMMEDIATE\<close> raises \<open>OperationalError\<close> (the database is locked): the function
  rolls back and returns \<open>None\<close>. The row is read back after the commit; \<open>r[0]\<close> on a
  missing row is a \<open>TypeError\<close>.
\<close>

definition claim_job ::
  "bool \<Rightarrow> string \<Rightarrow> ('t::linorder) db \<Rightarrow> 't db \<times> (pyerror + 't claimed option)" where
  "claim_job busy worker_name d =
     (if busy then (d, Inr None)
      else case select_oldest_pending (recompute_jobs d) of
             None \<Rightarrow> (d, Inr None)
           | Some row \<Rightarrow>
               (let d' = d\<lparr>recompute_jobs :=
                            update_claimed worker_name (job_id row) (recompute_jobs d)\<rparr>
                in case find (\<lambda>j. job_id j = job_id row) (recompute_jobs d') of
                     None \<Rightarrow> (d', Inl TypeError)
                   | Some r \<Rightarrow>
                       (d', Inr (Some \<lparr>claimed_id = job_id r,
                                      claimed_user_id = job_user_id r,
                                      claimed_enqueued_at = enqueued_at r,
                                      claimed_attempts = attempts r\<rparr>))))"

text \<open>
  \<open>upsert_trust_score_and_audit\<close>: two statements, each committed as it completes, then
  a \<open>commit\<close> that finds no open transaction. \<open>now\<close> is \<open>datetime('now')\<close> and
  \<open>details_json\<close> the serialised details. \<open>fault = Some n\<close> says that statement \<open>n\<close> of
  the call raises \<open>OperationalError\<close>.
\<close>

definition upsert_trust_score_and_audit ::
  "nat option \<Rightarrow> 't \<Rightarrow> string \<Rightarrow> rat \<Rightarrow> string \<Rightarrow> 't db \<Rightarrow> 't db \<times> (pyerror + unit)" where
  "upsert_trust_score_and_audit fault now uid score details_json d =
     (if fault = Some 0 then (d, Inl OperationalError)
      else (let d1 = d\<lparr>trust_scores := (trust_scores d)(uid \<mapsto> (score, now))\<rparr>
            in if fault = Some 1 then (d1, Inl OperationalError)
               else (d1\<lparr>trust_score_audit :=
                          trust_score_audit d1 @ [(uid, score, details_json, now)]\<rparr>,
                     Inr ())))"

text \<open>
  \<open>UPDATE recompute_jobs SET processed = 1, processed_at = datetime('now'),
  processing = 0 WHERE id = ?\<close>.
\<close>

definition mark_job_done :: "'t \<Rightarrow> int \<Rightarrow> 't db \<Rightarrow> 't db" where
  "mark_job_done now jid d =
     d\<lparr>recompute_jobs :=
         map (\<lambda>j. if job_id j = jid
                  then j\<lparr>processed := 1, processed_at := Some now, processing := 0\<rparr>
                  else j) (recompute_jobs d)\<rparr>"

text \<open>
  \<open>UPDATE recompute_jobs SET processed = 2, last_error = ?,
  processed_at = datetime('now'), processing = 0 WHERE id = ?\<close>.
\<close>

definition mark_job_failed :: "'t \<Rightarrow> int \<Rightarrow> string \<Rightarrow> 't db \<Rightarrow> 't db" where
  "mark_job_failed now jid err d =
     d\<lparr>recompute_jobs :=
         map (\<lambda>j. if job_id j = jid
                  then j\<lparr>processed := 2, last_error := Some err, processed_at := Some now,
                         processing := 0\<rparr>
                  else j) (recompute_jobs d)\<rparr>"

text \<open>Sequences of queue operations, each with the clock reading or lock state it meets.\<close>

datatype 't queue_op =
    Claim bool string
  | MarkDone 't int
  | MarkFailed 't int string

fun apply_op :: "('t::linorder) queue_op \<Rightarrow> 't db \<Rightarrow> 't db" where
  "apply_op (Claim busy worker_name) d = fst (claim_job busy worker_name d)"
| "apply_op (MarkDone now jid) d = mark_job_done now jid d"
| "apply_op (MarkFailed now jid err) d = mark_job_failed now jid err d"

fun run_ops :: "('t::linorder) queue_op list \<Rightarrow> 't db \<Rightarrow> 't db" where
  "run_ops [] d = d"
| "run_ops (op # ops) d = run_ops ops (apply_op op d)"

definition terminal :: "'t job \<Rightarrow> bool" where
  "terminal j \<longleftrightarrow> processed j = 1 \<or> processed j = 2"

text \<open>
  A mark is on a claimed job when every row with its id is in flight
  (\<open>processing = 1\<close>, \<open>processed = 0\<close>), as the marks of \<open>worker_loop\<close> after a claim are.
\<close>

fun marks_claimed :: "'t queue_op \<Rightarrow> 't db \<Rightarrow> bool" where
  "marks_claimed (Claim busy worker_name) d = True"
| "marks_claimed (MarkDone now jid) d =
     list_all (\<lambda>j. job_id j = jid \<longrightarrow> processing j = 1 \<and> processed j = 0) (recompute_jobs d)"
| "marks_claimed (MarkFailed now jid err) d =
     list_all (\<lambda>j. job_id j = jid \<longrightarrow> processing j = 1 \<and> processed j = 0) (recompute_jobs d)"

fun well_marked :: "('t::linorder) queue_op list \<Rightarrow> 't db \<Rightarrow> bool" where
  "well_marked [] d = True"
| "well_marked (op # ops) d = (marks_claimed op d \<and> well_marked ops (apply_op op d))"

text \<open>A pending job, and databases for the examples.\<close>

definition new_job :: "int \<Rightarrow> string \<Rightarrow> 't \<Rightarrow> 't job" where
  "new_job jid uid t =
     \<lparr>job_id = jid, job_user_id = uid, processing = 0, processed = 0, attempts = 0,
      processor = None, enqueued_at = t, processed_at = None, last_error = None\<rparr>"

definition queue_of :: "'t job list \<Rightarrow> 't db" where
  "queue_of jobs = \<lparr>recompute_jobs = jobs, trust_scores = Map.empty, trust_score_audit = []\<rparr>"

text \<open>A queue with a pending job 1 and a job 2 that is already done.\<close>

definition two_job_queue :: "int db" where
  "two_job_queue = queue_of [new_job 1 ''u1'' 5, (new_job 2 ''u2'' 4)\<lparr>processed := 1\<rparr>]"

section \<open>An instance of the library\<close>

text \<open>
  The theorems below hold for every library. Where a concrete input is evaluated, the
  library is \<open>utc_stdlib\<close>: Python on a machine whose local zone is UTC, on the timestamp
  forms \<open>YYYY-MM-DD\<close>, \<open>YYYY-MM-DDTHH:MM:SS\<close> and \<open>YYYY-MM-DDTHH:MM:SS+00:00\<close>, on
  \<open>Y-M-D\<close> dates for \<open>strptime\<close>, on signed decimal numerals for \<open>int\<close>, and on
  \<open>None\<close>, booleans, integers and strings for \<open>str\<close>. Python accepts further forms; no
  theorem is evaluated on one.
\<close>

definition digit_of :: "char \<Rightarrow> int option" where
  "digit_of c =
     (let n = (of_char c :: nat) in if 48 \<le> n \<and> n \<le> 57 then Some (int n - 48) else None)"

fun digits_acc :: "int \<Rightarrow> string \<Rightarrow> int option" where
  "digits_acc a [] = Some a"
| "digits_acc a (c # cs) =
     (case digit_of c of None \<Rightarrow> None | Some d \<Rightarrow> digits_acc (10 * a + d) cs)"

definition digits :: "string \<Rightarrow> int option" where
  "digits s = (if s = [] then None else digits_acc 0 s)"

definition decimal_int :: "string \<Rightarrow> int option" where
  "decimal_int s =
     (case s of
        [] \<Rightarrow> None
      | c # cs \<Rightarrow>
          if c = CHR ''-'' then map_option uminus (digits cs)
          else if c = CHR ''+'' then digits cs
          else digits s)"

definition is_leap :: "int \<Rightarrow> bool" where
  "is_leap y = (y mod 4 = 0 \<and> (y mod 100 \<noteq> 0 \<or> y mod 400 = 0))"

definition days_in_month :: "int \<Rightarrow> int \<Rightarrow> int" where
  "days_in_month y m =
     (if m = 2 then (if is_leap y then 29 else 28)
      else if m = 4 \<or> m = 6 \<or> m = 9 \<or> m = 11 then 30 else 31)"

text \<open>Days from 1970-01-01 to a date of the proleptic Gregorian calendar.\<close>

definition days_from_civil :: "int \<Rightarrow> int \<Rightarrow> int \<Rightarrow> int" where
  "days_from_civil y m d =
     (let y1 = (if m \<le> 2 then y - 1 else y);
          era = y1 div 400;
          yoe = y1 - era * 400;
          doy = (153 * (if 2 < m then m - 3 else m + 9) + 2) div 5 + d - 1;
          doe = yoe * 365 + yoe div 4 - yoe div 100 + doy
      in era * 146097 + doe - 719468)"

definition civil_date :: "int \<Rightarrow> int \<Rightarrow> int \<Rightarrow> datetime option" where
  "civil_date y m d =
     (if 1 \<le> y \<and> y \<le> 9999 \<and> 1 \<le> m \<and> m \<le> 12 \<and> 1 \<le> d \<and> d \<le> days_in_month y m
      then Some (days_from_civil y m d * 86400000000) else None)"

text \<open>\<open>YYYY-MM-DD\<close>, ten characters.\<close>

definition iso_date :: "string \<Rightarrow> datetime option" where
  "iso_date s =
     (if length s = 10 \<and> s ! 4 = CHR ''-'' \<and> s ! 7 = CHR ''-''
      then (case (digits (take 4 s), digits (take 2 (drop 5 s)), digits (drop 8 s)) of
              (Some y, Some m, Some d) \<Rightarrow> civil_date y m d
            | _ \<Rightarrow> None)
      else None)"

text \<open>\<open>HH:MM:SS\<close>, eight characters, as microseconds of the day.\<close>

definition iso_time :: "string \<Rightarrow> int option" where
  "iso_time s =
     (if length s = 8 \<and> s ! 2 = CHR '':'' \<and> s ! 5 = CHR '':''
      then (case (digits (take 2 s), digits (take 2 (drop 3 s)), digits (drop 6 s)) of
              (Some h, Some mi, Some sec) \<Rightarrow>
                if h < 24 \<and> mi < 60 \<and> sec < 60
                then Some ((h * 3600 + mi * 60 + sec) * 1000000) else None
            | _ \<Rightarrow> None)
      else None)"

definition iso_instant :: "string \<Rightarrow> datetime option" where
  "iso_instant s =
     (case iso_date (take 10 s) of
        None \<Rightarrow> None
      | Some day \<Rightarrow>
          (let rest = drop 10 s
           in if rest = [] then Some day
              else if hd rest \<noteq> CHR ''T'' then None
              else (case iso_time (take 8 (tl rest)) of
                      None \<Rightarrow> None
                    | Some us \<Rightarrow>
                        if drop 9 rest = [] \<or> drop 9 rest = ''+00:00''
                        then Some (day + us) else None)))"

text \<open>\<open>%Y-%m-%d\<close>: a four-digit year, month and day of one or two digits.\<close>

definition ymd_date :: "string \<Rightarrow> datetime option" where
  "ymd_date s =
     (let ys = takeWhile (\<lambda>c. c \<noteq> CHR ''-'') s;
          r1 = drop (Suc (length ys)) s;
          ms = takeWhile (\<lambda>c. c \<noteq> CHR ''-'') r1;
          ds = drop (Suc (length ms)) r1
      in if length ys = 4 \<and> length ms \<in> {1, 2} \<and> length ds \<in> {1, 2}
            \<and> length s = length ys + length ms + length ds + 2
         then (case (digits ys, digits ms, digits ds) of
                 (Some y, Some m, Some d) \<Rightarrow> civil_date y m d
               | _ \<Rightarrow> None)
         else None)"

function show_nat :: "nat \<Rightarrow> string" where
  "show_nat n =
     (if n < 10 then [char_of (48 + n)] else show_nat (n div 10) @ [char_of (48 + n mod 10)])"
  by pat_completeness auto
termination
  by (relation "measure id") auto

fun basic_str :: "pyval \<Rightarrow> string" where
  "basic_str PNone = ''None''"
| "basic_str (PBool b) = (if b then ''True'' else ''False'')"
| "basic_str (PInt n) = (if n < 0 then CHR ''-'' # show_nat (nat (- n)) else show_nat (nat n))"
| "basic_str (PStr s) = s"
| "basic_str v = []"

definition utc_stdlib :: stdlib where
  "utc_stdlib =
     \<lparr>str_of = basic_str,
      int_of_str = decimal_int,
      fromisoformat_utc = iso_instant,
      strptime_ymd = ymd_date,
      utcnow = 1735689600000000\<rparr>"

text \<open>Scenario A of the specification, last active at 2025-01-01T00:00:00Z.\<close>

definition scenario_A :: pydict where
  "scenario_A =
     [''photos'' \<mapsto> PInt 6, ''bio'' \<mapsto> PBool True, ''interests'' \<mapsto> PBool True,
      ''selfie_verified'' \<mapsto> PBool True, ''id_verified'' \<mapsto> PBool True,
      ''login_streak_days'' \<mapsto> PInt 30, ''response_rate_pct'' \<mapsto> PInt 100,
      ''reports_received'' \<mapsto> PInt 0, ''last_active_at'' \<mapsto> PStr ''2025-01-01T00:00:00Z'']"

text \<open>Scenario C of the specification: what the engine returns for the empty user.\<close>

definition empty_user_result :: TrustScoreResult where
  "empty_user_result =
     \<lparr>user_id = PStr ''unknown'', profile_score = 0, verification_score = 0,
      activity_score = 0, raw_total = 0, decay_applied = 0, final_score = 0, badges = [],
      breakdown = \<lparr>activity_breakdown =
                     \<lparr>streak_score = 0, response_score = 0, reports_penalty = 0\<rparr>,
                   last_active_at = PNone\<rparr>\<rparr>"

text \<open>
  A user with every number out of range, a float for the photo count and no last-active
  timestamp.
\<close>

definition out_of_range_user :: pydict where
  "out_of_range_user =
     [''photos'' \<mapsto> PFloat (Finite (201 / 2)), ''login_streak_days'' \<mapsto> PInt (- 5),
      ''response_rate_pct'' \<mapsto> PInt 250, ''reports_received'' \<mapsto> PInt 10]"

section \<open>Rounding and overflow\<close>

lemmas engine_constants =
  MAX_SCORE_def PROFILE_MAX_def VERIFICATION_MAX_def ACTIVITY_MAX_def PHOTOS_MAX_POINTS_def
  PHOTOS_CAP_def BIO_POINTS_def INTERESTS_POINTS_def SELFIE_POINTS_def ID_POINTS_def
  ACTIVITY_LOGIN_STREAK_MAX_def ACTIVITY_STREAK_CAP_DAYS_def ACTIVITY_RESPONSE_MAX_def
  ACTIVITY_REPORTS_PENALTY_MAX_def ACTIVITY_REPORTS_CAP_def DECAY_PER_WEEK_def
  VERIFIED_USER_MIN_SCORE_def TRUSTED_MEMBER_MIN_SCORE_def ACTIVE_DATER_MIN_SCORE_def
  ACTIVE_DATER_RECENT_DAYS_def

lemma round_half_even_ge: "of_int n \<le> x \<Longrightarrow> n \<le> round_half_even x"
proof -
  assume "of_int n \<le> x"
  then have "n \<le> \<lfloor>x\<rfloor>" by (simp add: le_floor_iff)
  then show ?thesis by (simp add: round_half_even_def Let_def)
qed

lemma round_half_even_le: "x \<le> of_int n \<Longrightarrow> round_half_even x \<le> n"
proof (cases "x = of_int n")
  case True
  then show ?thesis by (simp add: round_half_even_def Let_def)
next
  case False
  assume "x \<le> of_int n"
  with False have "x < of_int n" by simp
  then have "\<lfloor>x\<rfloor> < n" by (simp add: floor_less_iff)
  then show ?thesis by (simp add: round_half_even_def Let_def)
qed

lemma round2_bounds:
  assumes "of_int a / 100 \<le> x" and "x \<le> of_int b / 100"
  shows "of_int a / 100 \<le> round2 x \<and> round2 x \<le> of_int b / 100"
proof -
  from assms have "of_int a \<le> x * 100" "x * 100 \<le> of_int b" by (simp_all add: field_simps)
  then have "a \<le> round_half_even (x * 100)" "round_half_even (x * 100) \<le> b"
    by (simp_all add: round_half_even_ge round_half_even_le)
  then have "(of_int a :: rat) \<le> of_int (round_half_even (x * 100))"
       "(of_int (round_half_even (x * 100)) :: rat) \<le> of_int b"
    by (simp_all only: of_int_le_iff)
  then show ?thesis by (simp add: round2_def field_simps)
qed

lemma round2_0_30: "0 \<le> x \<Longrightarrow> x \<le> 30 \<Longrightarrow> 0 \<le> round2 x \<and> round2 x \<le> 30"
  using round2_bounds [of 0 x 3000] by simp

lemma round2_0_40: "0 \<le> x \<Longrightarrow> x \<le> 40 \<Longrightarrow> 0 \<le> round2 x \<and> round2 x \<le> 40"
  using round2_bounds [of 0 x 4000] by simp

lemma round2_0_100: "0 \<le> x \<Longrightarrow> x \<le> 100 \<Longrightarrow> 0 \<le> round2 x \<and> round2 x \<le> 100"
  using round2_bounds [of 0 x 10000] by simp

lemma round2_m8_30: "- 8 \<le> x \<Longrightarrow> x \<le> 30 \<Longrightarrow> - 8 \<le> round2 x \<and> round2 x \<le> 30"
  using round2_bounds [of "- 800" x 3000] by simp

lemma round_half_even_of_int: "round_half_even (of_int m) = m"
  by (simp add: round_half_even_def Let_def)

lemma round2_of_int: "round2 (of_int n) = of_int n"
proof -
  have "of_int n * 100 = (of_int (n * 100) :: rat)" by simp
  then have "round_half_even (of_int n * 100) = n * 100"
    by (simp only: round_half_even_of_int)
  then show ?thesis by (simp add: round2_def)
qed

lemma round2_numerals:
  "round2 0 = 0" "round2 10 = 10" "round2 20 = 20" "round2 30 = 30" "round2 40 = 40"
  "round2 100 = 100"
  using round2_of_int [of 0] round2_of_int [of 10] round2_of_int [of 20] round2_of_int [of 30]
    round2_of_int [of 40] round2_of_int [of 100]
  by simp_all

lemma FLOAT_OVERFLOW_large: "1000 < FLOAT_OVERFLOW"
proof -
  define a :: rat where "a = 2 ^ 970"
  have e: "(2::rat) ^ 1024 = a * 2 ^ 54"
    unfolding a_def by (simp only: power_add [symmetric]) simp
  have a1: "1 \<le> a" unfolding a_def by (rule one_le_power) simp
  have "FLOAT_OVERFLOW = a * (2 ^ 54 - 1)"
    unfolding FLOAT_OVERFLOW_def e by (simp only: a_def [symmetric] algebra_simps)
  moreover have "1 * (2 ^ 54 - 1) \<le> a * (2 ^ 54 - (1::rat))"
    by (rule mult_right_mono [OF a1]) simp
  moreover have "(1000::rat) < 1 * (2 ^ 54 - 1)" by simp
  ultimately show ?thesis by linarith
qed

lemma py_truediv_ok:
  "\<bar>of_int a / of_int b\<bar> < (1000::rat) \<Longrightarrow> py_truediv a b = Inr (of_int a / of_int b)"
  using FLOAT_OVERFLOW_large by (simp add: py_truediv_def)

lemma py_truediv_small:
  "py_truediv 6 6 = Inr 1" "py_truediv 30 30 = Inr 1" "py_truediv 0 5 = Inr 0"
  "py_truediv 0 6 = Inr 0" "py_truediv 0 30 = Inr 0"
  using py_truediv_ok [of 6 6] py_truediv_ok [of 30 30] py_truediv_ok [of 0 5]
    py_truediv_ok [of 0 6] py_truediv_ok [of 0 30]
  by simp_all

lemma py_truediv_clamped:
  "py_truediv (- 5) 30 = Inr (- 1 / 6)" "py_truediv 5 5 = Inr 1"
  using py_truediv_ok [of "- 5" 30] py_truediv_ok [of 5 5]
  by simp_all

lemma round2_hundredths:
  "round2 (- (10 / 3)) = - (333 / 100)" "round2 (- (4 / 3)) = - (133 / 100)"
  "round2 (1867 / 100) = 1867 / 100" "round2 (- 8) = - 8"
proof -
  have f1: "\<lfloor>- (1000 / 3) :: rat\<rfloor> = - 334" by (rule floor_unique) simp_all
  have f2: "\<lfloor>- (400 / 3) :: rat\<rfloor> = - 134" by (rule floor_unique) simp_all
  show "round2 (- (10 / 3)) = - (333 / 100)"
    by (simp add: round2_def round_half_even_def Let_def f1)
  show "round2 (- (4 / 3)) = - (133 / 100)"
    by (simp add: round2_def round_half_even_def Let_def f2)
  show "round2 (1867 / 100) = 1867 / 100"
    by (simp add: round2_def round_half_even_def Let_def)
  show "round2 (- 8) = - 8"
    by (simp add: round2_def round_half_even_def Let_def)
qed

lemma timedelta_days_same: "timedelta_days t t = 0"
  by (simp add: timedelta_days_def)

section \<open>The scoring engine\<close>

lemma profile_bounds:
  "compute_profile_score L user = Inr p \<Longrightarrow> 0 \<le> p \<and> p \<le> 30"
  unfolding compute_profile_score_def Let_def PROFILE_MAX_def
  by (auto split: sum.splits intro!: round2_0_30 [THEN conjunct1] round2_0_30 [THEN conjunct2])

lemma verification_bounds:
  "0 \<le> compute_verification_score user \<and> compute_verification_score user \<le> 40"
  unfolding compute_verification_score_def Let_def VERIFICATION_MAX_def
  by (intro round2_0_40) simp_all

lemma activity_bounds:
  "compute_activity_score L user = Inr (a, bd) \<Longrightarrow> - 8 \<le> a \<and> a \<le> 30"
  unfolding compute_activity_score_def Let_def ACTIVITY_MAX_def ACTIVITY_REPORTS_PENALTY_MAX_def
  by (auto split: sum.splits intro!: round2_m8_30 [THEN conjunct1] round2_m8_30 [THEN conjunct2])

lemma decay_bounds:
  "apply_inactivity_decay L b la r = Inr (f, d) \<Longrightarrow> 0 \<le> f \<and> f \<le> 100"
  unfolding apply_inactivity_decay_def Let_def MAX_SCORE_def
  by (auto split: sum.splits option.splits if_splits pydatetime.splits
      intro!: round2_0_100 [THEN conjunct1] round2_0_100 [THEN conjunct2])

lemma empty_user_eval:
  "compute_trust_score L Map.empty reference_dt =
     Inr empty_user_result"
proof -
  have p: "compute_profile_score L Map.empty = Inr 0"
    by (simp add: compute_profile_score_def get_def get_default_def py_or_def engine_constants
        py_truediv_small round2_numerals)
  have v: "compute_verification_score Map.empty = 0"
    by (simp add: compute_verification_score_def get_def engine_constants round2_numerals)
  have a: "compute_activity_score L Map.empty =
      Inr (0, \<lparr>streak_score = 0, response_score = 0, reports_penalty = 0\<rparr>)"
    by (simp add: compute_activity_score_def get_def get_default_def py_or_def engine_constants
        py_truediv_small round2_numerals)
  have d: "apply_inactivity_decay L 0 PNone r = Inr (0, 0)" for r
    by (simp add: apply_inactivity_decay_def engine_constants round2_numerals)
  have b: "assign_badges L 0 Map.empty r = Inr []" for r
    by (simp add: assign_badges_def get_def engine_constants)
  show ?thesis
    by (simp add: compute_trust_score_def p v a d b get_def get_default_def engine_constants
        round2_numerals empty_user_result_def)
qed

text \<open>The engine on the user with every number out of range: each clamp is engaged.\<close>

lemma out_of_range_user_eval:
  "compute_trust_score utc_stdlib out_of_range_user None =
     Inr \<lparr>user_id = PStr ''unknown'', profile_score = 20, verification_score = 0,
          activity_score = - 133 / 100, raw_total = 1867 / 100, decay_applied = 0,
          final_score = 1867 / 100, badges = [],
          breakdown = \<lparr>activity_breakdown =
                         \<lparr>streak_score = - 333 / 100, response_score = 10,
                          reports_penalty = - 8\<rparr>,
                       last_active_at = PNone\<rparr>\<rparr>"
proof -
  let ?u = out_of_range_user
  have fl: "\<lfloor>201 / 2 :: rat\<rfloor> = 100"
    by (rule floor_unique) simp_all
  have p: "compute_profile_score utc_stdlib ?u = Inr 20"
    by (simp add: compute_profile_score_def out_of_range_user_def get_def get_default_def
        py_or_def engine_constants py_truediv_small round2_numerals fl)
  have v: "compute_verification_score ?u = 0"
    by (simp add: compute_verification_score_def out_of_range_user_def get_def engine_constants
        round2_numerals)
  have a: "compute_activity_score utc_stdlib ?u =
      Inr (- 133 / 100,
           \<lparr>streak_score = - 333 / 100, response_score = 10, reports_penalty = - 8\<rparr>)"
    by (simp add: compute_activity_score_def out_of_range_user_def get_def get_default_def
        py_or_def engine_constants py_truediv_clamped round2_numerals round2_hundredths)
  have d: "apply_inactivity_decay utc_stdlib (1867 / 100) PNone r = Inr (1867 / 100, 0)" for r
    by (simp add: apply_inactivity_decay_def engine_constants round2_hundredths)
  have b: "assign_badges utc_stdlib (1867 / 100) ?u r = Inr []" for r
    by (simp add: assign_badges_def out_of_range_user_def get_def engine_constants)
  have g: "get ?u ''last_active_at'' = PNone"
    "get_default ?u ''user_id'' (PStr ''unknown'') = PStr ''unknown''"
    by (simp_all add: out_of_range_user_def get_def get_default_def)
  show ?thesis
    by (simp add: compute_trust_score_def Let_def p v a d b g engine_constants round2_hundredths)
qed


text \<open>
  C4. Whenever \<open>compute_trust_score\<close> returns a result, its component scores are within
  their bounds: the profile score in [0, 30], the verification score in [0, 40], the
  activity score in [-8, 30] and the final score in [0, 100], for every library, user
  dictionary and reference time.
\<close>

theorem component_score_bounds:
  "compute_trust_score L user reference_dt = Inr r \<Longrightarrow>
     0 \<le> profile_score r \<and> profile_score r \<le> 30 \<and>
     0 \<le> verification_score r \<and> verification_score r \<le> 40 \<and>
     - 8 \<le> activity_score r \<and> activity_score r \<le> 30 \<and>
     0 \<le> final_score r \<and> final_score r \<le> 100"
  unfolding compute_trust_score_def Let_def
  using verification_bounds [of user]
  by (auto split: sum.splits prod.splits dest: profile_bounds activity_bounds decay_bounds)

theorem component_score_bounds_witness:
  "compute_trust_score utc_stdlib Map.empty (Some (Aware 0)) =
     Inr empty_user_result
   \<and> 0 \<le> profile_score empty_user_result \<and> profile_score empty_user_result \<le> 30
   \<and> 0 \<le> verification_score empty_user_result \<and> verification_score empty_user_result \<le> 40
   \<and> - 8 \<le> activity_score empty_user_result \<and> activity_score empty_user_result \<le> 30
   \<and> 0 \<le> final_score empty_user_result \<and> final_score empty_user_result \<le> 100
   \<and> (\<exists>r. compute_trust_score utc_stdlib out_of_range_user None = Inr r
         \<and> profile_score r = 20 \<and> activity_score r = - 133 / 100 \<and> final_score r = 1867 / 100
         \<and> 0 \<le> profile_score r \<and> profile_score r \<le> 30
         \<and> 0 \<le> verification_score r \<and> verification_score r \<le> 40
         \<and> - 8 \<le> activity_score r \<and> activity_score r \<le> 30
         \<and> 0 \<le> final_score r \<and> final_score r \<le> 100)"
  using component_score_bounds [OF empty_user_eval [of utc_stdlib "Some (Aware 0)"]]
    empty_user_eval [of utc_stdlib "Some (Aware 0)"]
    component_score_bounds [OF out_of_range_user_eval] out_of_range_user_eval
  by simp

lemma parse_scenario_A_time:
  "parse_iso_datetime utc_stdlib (PStr ''2025-01-01T00:00:00Z'') = Inr (Some 1735689600000000)"
  by code_simp

text \<open>
  C8. Scenario A: a user with photos=6, bio, interests, selfie and ID verification true,
  a login streak of 30 days, a response rate of 100, no reports, and a last-active
  timestamp that parses to the reference time gets profile 30, verification 40, activity
  30, raw total 100, decay 0, final score 100 and the three badges, in the order
  Verified User, Trusted Member, Active Dater.
\<close>

theorem scenario_A_result:
  assumes "user ''photos'' = Some (PInt 6)" and "user ''bio'' = Some (PBool True)"
    and "user ''interests'' = Some (PBool True)"
    and "user ''selfie_verified'' = Some (PBool True)"
    and "user ''id_verified'' = Some (PBool True)"
    and "user ''login_streak_days'' = Some (PInt 30)"
    and "user ''response_rate_pct'' = Some (PInt 100)"
    and "user ''reports_received'' = Some (PInt 0)"
    and "user ''last_active_at'' = Some (PStr s)" and "s \<noteq> []"
    and "parse_iso_datetime L (PStr s) = Inr (Some t)"
  shows "\<exists>r. compute_trust_score L user (Some (Aware t)) = Inr r \<and>
           profile_score r = 30 \<and> verification_score r = 40 \<and> activity_score r = 30 \<and>
           raw_total r = 100 \<and> decay_applied r = 0 \<and> final_score r = 100 \<and>
           badges r = [''Verified User'', ''Trusted Member'', ''Active Dater'']"
proof -
  have p: "compute_profile_score L user = Inr 30"
    using assms(1-3)
    by (simp add: compute_profile_score_def get_def get_default_def py_or_def engine_constants
        py_truediv_small round2_numerals)
  have v: "compute_verification_score user = 40"
    using assms(4,5)
    by (simp add: compute_verification_score_def get_def engine_constants round2_numerals)
  have a: "compute_activity_score L user =
      Inr (30, \<lparr>streak_score = 20, response_score = 10, reports_penalty = 0\<rparr>)"
    using assms(6-8)
    by (simp add: compute_activity_score_def get_def get_default_def py_or_def engine_constants
        py_truediv_small round2_numerals)
  have d: "apply_inactivity_decay L 100 (PStr s) (Some (Aware t)) = Inr (100, 0)"
    using assms(10,11)
    by (simp add: apply_inactivity_decay_def engine_constants round2_numerals
        timedelta_days_same del: parse_iso_datetime.simps)
  have b: "assign_badges L 100 user (Some (Aware t)) =
      Inr [''Verified User'', ''Trusted Member'', ''Active Dater'']"
    using assms(5,9,10,11)
    by (simp add: assign_badges_def get_def engine_constants timedelta_days_same
        del: parse_iso_datetime.simps)
  show ?thesis
    using assms(9)
    by (simp add: compute_trust_score_def p v a d b get_def engine_constants round2_numerals)
qed

theorem scenario_A_result_witness:
  "\<exists>r. compute_trust_score utc_stdlib scenario_A (Some (Aware 1735689600000000)) = Inr r \<and>
       profile_score r = 30 \<and> verification_score r = 40 \<and> activity_score r = 30 \<and>
       raw_total r = 100 \<and> decay_applied r = 0 \<and> final_score r = 100 \<and>
       badges r = [''Verified User'', ''Trusted Member'', ''Active Dater'']"
  using scenario_A_result [of scenario_A "''2025-01-01T00:00:00Z''" utc_stdlib 1735689600000000]
    parse_scenario_A_time
  by (simp add: scenario_A_def)

lemma badges_scenario_A:
  "assign_badges utc_stdlib 100 scenario_A (Some (Aware 1735689600000000)) =
     Inr [''Verified User'', ''Trusted Member'', ''Active Dater'']"
  using parse_scenario_A_time
  by (simp add: assign_badges_def get_def engine_constants timedelta_days_same scenario_A_def
      del: parse_iso_datetime.simps)

text \<open>
  C10. Every badge list that \<open>assign_badges\<close> returns has no duplicates and is a
  subsequence of Verified User, Trusted Member, Active Dater, in that order; no other
  name appears in it.
\<close>

theorem badges_subsequence:
  "assign_badges L score user reference_dt = Inr bs \<Longrightarrow>
     distinct bs \<and> subseq bs [''Verified User'', ''Trusted Member'', ''Active Dater''] \<and>
     set bs \<subseteq> {''Verified User'', ''Trusted Member'', ''Active Dater''}"
  unfolding assign_badges_def Let_def
  by (auto split: sum.splits option.splits if_splits)

theorem badges_subsequence_witness:
  "assign_badges utc_stdlib 100 scenario_A (Some (Aware 1735689600000000)) =
     Inr [''Verified User'', ''Trusted Member'', ''Active Dater''] \<and>
   distinct [''Verified User'', ''Trusted Member'', ''Active Dater''] \<and>
   subseq [''Verified User'', ''Trusted Member'', ''Active Dater'']
     [''Verified User'', ''Trusted Member'', ''Active Dater'']"
  using badges_subsequence [OF badges_scenario_A] badges_scenario_A
  by simp

section \<open>Future timestamps and malformed input\<close>

lemma parse_one_second_later:
  "parse_iso_datetime utc_stdlib (PStr ''2025-01-01T00:00:01Z'') = Inr (Some 1735689601000000)"
  by code_simp

lemma round2_55: "round2 55 = 55" using round2_of_int [of 55] by simp

text \<open>
  C2. The claim is that a last-active timestamp later than the reference time counts as
  0 days inactive, with decay 0 and the clamped base score returned. The code has no
  such guard: one second in the future is -1 whole days and -1 full weeks, the decay is
  -5, and a base score of 50 comes back as 55.
\<close>

theorem future_last_active_raises_score:
  "apply_inactivity_decay utc_stdlib 50 (PStr ''2025-01-01T00:00:01Z'') (Some (Aware 1735689600000000))
     = Inr (55, - 5)"
  using parse_one_second_later
  by (simp add: apply_inactivity_decay_def engine_constants timedelta_days_def round2_55
      del: parse_iso_datetime.simps)

lemma parse_not_a_date:
  "parse_iso_datetime utc_stdlib (PStr ''not-a-date'') = Inl ValueError"
  by code_simp

lemma py_truediv_cases:
  assumes "0 < b"
  shows "py_truediv (min n b) b =
           (if - FLOAT_OVERFLOW * of_int b < of_int n then Inr (of_int (min n b) / of_int b)
            else Inl OverflowError)"
proof -
  have b: "(0::rat) < of_int b" using assms by simp
  have le1: "of_int (min n b) / of_int b \<le> (1::rat)" using b by (simp add: field_simps)
  have F: "1 < FLOAT_OVERFLOW" using FLOAT_OVERFLOW_large by simp
  have "\<not> FLOAT_OVERFLOW \<le> \<bar>of_int (min n b) / of_int b :: rat\<bar>
          \<longleftrightarrow> - FLOAT_OVERFLOW < of_int (min n b) / of_int b"
    using le1 F by linarith
  also have "\<dots> \<longleftrightarrow> - FLOAT_OVERFLOW * of_int b < of_int (min n b)"
    using b by (simp add: field_simps)
  also have "\<dots> \<longleftrightarrow> - FLOAT_OVERFLOW * of_int b < of_int n"
  proof -
    have "0 < FLOAT_OVERFLOW * of_int b" using b F by simp
    then have "- FLOAT_OVERFLOW * of_int b < of_int b" using b by linarith
    then show ?thesis by (auto simp: min_def)
  qed
  finally have eq: "(FLOAT_OVERFLOW \<le> \<bar>of_int (min n b) / of_int b :: rat\<bar>)
      = (\<not> - FLOAT_OVERFLOW * of_int b < of_int n)"
    by blast
  show ?thesis unfolding py_truediv_def eq by simp
qed

lemma profile_returns:
  "(\<exists>p. compute_profile_score L user = Inr p) \<longleftrightarrow>
     (\<exists>photos. py_int L (py_or (get_default user ''photos'' (PInt 0)) (PInt 0)) = Inr photos \<and>
        - FLOAT_OVERFLOW * 6 < of_int photos)"
  using py_truediv_cases [of 6]
  by (auto simp: compute_profile_score_def Let_def PHOTOS_CAP_def split: sum.splits)

lemma activity_returns:
  "(\<exists>a. compute_activity_score L user = Inr a) \<longleftrightarrow>
     (\<exists>streak resp reports.
        py_int L (py_or (get_default user ''login_streak_days'' (PInt 0)) (PInt 0)) = Inr streak \<and>
        py_int L (py_or (get_default user ''response_rate_pct'' (PInt 0)) (PInt 0)) = Inr resp \<and>
        py_int L (py_or (get_default user ''reports_received'' (PInt 0)) (PInt 0)) = Inr reports \<and>
        - FLOAT_OVERFLOW * 30 < of_int streak \<and> - FLOAT_OVERFLOW * 5 < of_int reports)"
  using py_truediv_cases [of 30] py_truediv_cases [of 5]
  by (auto simp: compute_activity_score_def Let_def ACTIVITY_STREAK_CAP_DAYS_def ACTIVITY_REPORTS_CAP_def split: sum.splits)

lemma decay_returns:
  "(\<exists>fd. apply_inactivity_decay L b la r = Inr fd) \<longleftrightarrow>
     (truthy la \<longrightarrow>
        (\<exists>t. parse_iso_datetime L la = Inr (Some t)) \<and> (\<forall>w. r \<noteq> Some (Naive w)))"
  by (auto simp: apply_inactivity_decay_def Let_def
      split: sum.splits option.splits pydatetime.splits)

lemma badges_returns:
  "(\<exists>bs. assign_badges L sc user r = Inr bs) \<longleftrightarrow>
     (truthy (get user ''last_active_at'') \<longrightarrow>
        (\<exists>t. parse_iso_datetime L (get user ''last_active_at'') = Inr (Some t)) \<and>
        (\<forall>w. r \<noteq> Some (Naive w)))"
  by (auto simp: assign_badges_def Let_def split: sum.splits option.splits pydatetime.splits)

lemma defaulted_reference_naive:
  "(\<forall>w. Some (case reference_dt of None \<Rightarrow> Aware u | Some t \<Rightarrow> t) \<noteq> Some (Naive w))
     \<longleftrightarrow> (\<forall>w. reference_dt \<noteq> Some (Naive w))"
  by (cases reference_dt) auto

text \<open>
  C3, as amended. \<open>compute_trust_score\<close> returns a result exactly when \<open>int()\<close>
  accepts the four numeric fields (it raises on NaN, on an infinity, on a string it does
  not parse and on a non-empty list or dictionary), none of photos, login streak and
  reports is so negative that the true division overflows a float, and
  \<open>last_active_at\<close> is falsy or is accepted by \<open>parse_iso_datetime\<close> with a reference time
  that is not naive. Numbers out of range are clamped inside the engine; a last-active
  value that does not parse is raised as \<open>ValueError\<close>, not defaulted.
\<close>

theorem engine_returns_iff:
  "(\<exists>r. compute_trust_score L user reference_dt = Inr r) \<longleftrightarrow>
     (\<exists>photos streak resp reports.
        py_int L (py_or (get_default user ''photos'' (PInt 0)) (PInt 0)) = Inr photos \<and>
        py_int L (py_or (get_default user ''login_streak_days'' (PInt 0)) (PInt 0)) = Inr streak \<and>
        py_int L (py_or (get_default user ''response_rate_pct'' (PInt 0)) (PInt 0)) = Inr resp \<and>
        py_int L (py_or (get_default user ''reports_received'' (PInt 0)) (PInt 0)) = Inr reports \<and>
        - FLOAT_OVERFLOW * 6 < of_int photos \<and> - FLOAT_OVERFLOW * 30 < of_int streak \<and>
        - FLOAT_OVERFLOW * 5 < of_int reports) \<and>
     (truthy (get user ''last_active_at'') \<longrightarrow>
        (\<exists>t. parse_iso_datetime L (get user ''last_active_at'') = Inr (Some t)) \<and>
        (\<forall>w. reference_dt \<noteq> Some (Naive w)))"
  (is "?lhs \<longleftrightarrow> ?num \<and> ?la")
proof -
  let ?ref = "Some (case reference_dt of None \<Rightarrow> Aware (utcnow L) | Some t \<Rightarrow> t)"
  have P: "(\<exists>p. compute_profile_score L user = Inr p) \<and>
      (\<exists>a. compute_activity_score L user = Inr a) \<longleftrightarrow> ?num"
    unfolding profile_returns activity_returns by blast
  have D: "\<And>b. (\<exists>fd. apply_inactivity_decay L b (get user ''last_active_at'') ?ref = Inr fd)
      \<longleftrightarrow> ?la"
    unfolding decay_returns defaulted_reference_naive by (rule refl)
  have B: "\<And>sc. (\<exists>bs. assign_badges L sc user ?ref = Inr bs) \<longleftrightarrow> ?la"
    unfolding badges_returns defaulted_reference_naive by (rule refl)
  have "?lhs \<longleftrightarrow> (\<exists>p. compute_profile_score L user = Inr p) \<and>
      (\<exists>a. compute_activity_score L user = Inr a) \<and> ?la"
  proof (cases "compute_profile_score L user")
    case (Inl e)
    then show ?thesis by (simp add: compute_trust_score_def Let_def)
  next
    case p: (Inr p)
    show ?thesis
    proof (cases "compute_activity_score L user")
      case (Inl e)
      then show ?thesis using p by (simp add: compute_trust_score_def Let_def)
    next
      case a: (Inr ab)
      obtain a bd where ab: "ab = (a, bd)" by (cases ab)
      let ?raw = "round2 (max 0 (min MAX_SCORE (p + compute_verification_score user + a)))"
      show ?thesis
      proof (cases "apply_inactivity_decay L ?raw (get user ''last_active_at'') ?ref")
        case (Inl e)
        with D [of ?raw] have "\<not> ?la" by auto
        moreover from Inl have "\<not> ?lhs"
          using p a ab by (simp add: compute_trust_score_def Let_def)
        ultimately show ?thesis by blast
      next
        case d: (Inr fd)
        obtain f dc where fd: "fd = (f, dc)" by (cases fd)
        from d D [of ?raw] have la: "?la" by blast
        with B [of f] obtain bs where bs: "assign_badges L f user ?ref = Inr bs" by blast
        have "?lhs" using p a ab d fd bs by (simp add: compute_trust_score_def Let_def)
        with la p a show ?thesis by blast
      qed
    qed
  qed
  with P show ?thesis by blast
qed

text \<open>
  C3 as stated fails: on a user whose only field is an unparseable last-active string the
  engine raises \<open>ValueError\<close>.
\<close>

theorem unparseable_last_active_raises:
  "compute_trust_score utc_stdlib [''last_active_at'' \<mapsto> PStr ''not-a-date'']
     (Some (Aware 0))
     = Inl ValueError"
proof -
  let ?u = "[''last_active_at'' \<mapsto> PStr ''not-a-date'']"
  have p: "compute_profile_score utc_stdlib ?u = Inr 0"
    by (simp add: compute_profile_score_def get_def get_default_def py_or_def engine_constants
        py_truediv_small round2_numerals)
  have a: "compute_activity_score utc_stdlib ?u =
      Inr (0, \<lparr>streak_score = 0, response_score = 0, reports_penalty = 0\<rparr>)"
    by (simp add: compute_activity_score_def get_def get_default_def py_or_def engine_constants
        py_truediv_small round2_numerals)
  have v: "compute_verification_score ?u = 0"
    by (simp add: compute_verification_score_def get_def engine_constants round2_numerals)
  have d: "apply_inactivity_decay utc_stdlib 0 (PStr ''not-a-date'') (Some (Aware 0))
      = Inl ValueError"
    using parse_not_a_date
    by (simp add: apply_inactivity_decay_def del: parse_iso_datetime.simps)
  show ?thesis
    by (simp add: compute_trust_score_def p v a d get_def engine_constants round2_numerals)
qed

theorem engine_returns_iff_witness:
  "parse_iso_datetime utc_stdlib (get scenario_A ''last_active_at'') = Inr (Some 1735689600000000)
   \<and> (\<exists>r. compute_trust_score utc_stdlib scenario_A (Some (Aware 1735689600000000)) = Inr r)
   \<and> (\<exists>r. compute_trust_score utc_stdlib out_of_range_user None = Inr r)"
proof -
  have F: "- FLOAT_OVERFLOW * 6 < 6" "- FLOAT_OVERFLOW * 30 < 30" "- FLOAT_OVERFLOW * 5 < 0"
    "- FLOAT_OVERFLOW * 6 < 100" "- FLOAT_OVERFLOW * 30 < - 5" "- FLOAT_OVERFLOW * 5 < 10"
    using FLOAT_OVERFLOW_large by simp_all
  have fl: "\<lfloor>201 / 2 :: rat\<rfloor> = 100"
    by (rule floor_unique) simp_all
  have A: "\<exists>r. compute_trust_score utc_stdlib scenario_A (Some (Aware 1735689600000000)) = Inr r"
    using engine_returns_iff [of utc_stdlib scenario_A "Some (Aware 1735689600000000)"]
      parse_scenario_A_time F
    by (simp add: scenario_A_def get_def get_default_def py_or_def del: parse_iso_datetime.simps)
  have B: "\<exists>r. compute_trust_score utc_stdlib out_of_range_user None = Inr r"
    using engine_returns_iff [of utc_stdlib out_of_range_user None] F
    by (simp add: out_of_range_user_def get_def get_default_def py_or_def fl)
  from A B parse_scenario_A_time show ?thesis by (simp add: scenario_A_def get_def)
qed

text \<open>
  The other ways in: a photo count that is NaN or an infinity, and a naive reference time
  with a last-active timestamp that parses.
\<close>

lemma nan_photos_raises:
  "compute_trust_score L [''photos'' \<mapsto> PFloat NaN] reference_dt = Inl ValueError"
  by (simp add: compute_trust_score_def compute_profile_score_def get_default_def py_or_def)

lemma infinite_photos_raises:
  "compute_trust_score L [''photos'' \<mapsto> PFloat PosInf] reference_dt = Inl OverflowError"
  by (simp add: compute_trust_score_def compute_profile_score_def get_default_def py_or_def)

lemma naive_reference_raises:
  "compute_trust_score utc_stdlib [''last_active_at'' \<mapsto> PStr ''2025-01-01T00:00:00Z'']
     (Some (Naive 0)) = Inl TypeError"
proof -
  let ?u = "[''last_active_at'' \<mapsto> PStr ''2025-01-01T00:00:00Z'']"
  have p: "compute_profile_score utc_stdlib ?u = Inr 0"
    by (simp add: compute_profile_score_def get_def get_default_def py_or_def engine_constants
        py_truediv_small round2_numerals)
  have a: "compute_activity_score utc_stdlib ?u =
      Inr (0, \<lparr>streak_score = 0, response_score = 0, reports_penalty = 0\<rparr>)"
    by (simp add: compute_activity_score_def get_def get_default_def py_or_def engine_constants
        py_truediv_small round2_numerals)
  have v: "compute_verification_score ?u = 0"
    by (simp add: compute_verification_score_def get_def engine_constants round2_numerals)
  have d: "apply_inactivity_decay utc_stdlib 0 (PStr ''2025-01-01T00:00:00Z'') (Some (Naive 0))
      = Inl TypeError"
    using parse_scenario_A_time
    by (simp add: apply_inactivity_decay_def del: parse_iso_datetime.simps)
  show ?thesis
    by (simp add: compute_trust_score_def p v a d get_def engine_constants round2_numerals)
qed

section \<open>Normalising the input row\<close>

lemma sample_row:
  "map_input_to_row utc_stdlib sample =
     Inr \<lparr>row_user_id = ''user_28'', photos = 4, bio_filled = 1, interests_count = 5,
          selfie_verified = 1, id_verified = 1, login_streak = 22, response_rate_pct = 88,
          reports_count = 3, row_last_active_at = PStr ''2025-12-09T14:35:00Z''\<rparr>"
  by (simp add: map_input_to_row_def sample_def get_def get_default_def py_or_def utc_stdlib_def)

lemma interests_count_of_row:
  "map_input_to_row L d = Inr row \<Longrightarrow>
     interests_count row =
       (case get d ''interests'' of
          PBool b \<Rightarrow> (if b then 5 else 0)
        | PInt n \<Rightarrow> max 0 (min 5 n)
        | _ \<Rightarrow> 0)"
  unfolding map_input_to_row_def Let_def
  by (auto split: sum.splits option.splits)

lemma interests_count_of_dict:
  assumes "map_input_to_row L d = Inr row"
  shows "interests_count row =
       (case d ''interests'' of
          Some (PBool b) \<Rightarrow> (if b then 5 else 0)
        | Some (PInt n) \<Rightarrow> max 0 (min 5 n)
        | _ \<Rightarrow> 0)
     \<and> 0 \<le> interests_count row \<and> interests_count row \<le> 5"
proof -
  from assms have r: "interests_count row =
       (case get d ''interests'' of
          PBool b \<Rightarrow> (if b then 5 else 0)
        | PInt n \<Rightarrow> max 0 (min 5 n)
        | _ \<Rightarrow> 0)"
    by (rule interests_count_of_row)
  show ?thesis
  proof (cases "d ''interests''")
    case None
    with r show ?thesis by (simp add: get_def)
  next
    case (Some v)
    with r show ?thesis by (cases v) (simp_all add: get_def)
  qed
qed

text \<open>
  When a row is returned: \<open>user_id\<close> is present and \<open>int()\<close> accepts the photo count and
  the three activity numbers. The \<open>interests\<close> field has no part in it.
\<close>

lemma map_input_to_row_returns:
  "(\<exists>row. map_input_to_row L d = Inr row) \<longleftrightarrow>
     d ''user_id'' \<noteq> None \<and>
     (\<exists>n. py_int L (get_default d ''photos'' (PInt 0)) = Inr n) \<and>
     (\<exists>n. py_int L (py_or (py_or (get d ''login_streak_days'') (get d ''login_streak''))
                      (PInt 0)) = Inr n) \<and>
     (\<exists>n. py_int L (py_or (py_or (get d ''response_rate_pct'') (get d ''response_rate''))
                      (PInt 0)) = Inr n) \<and>
     (\<exists>n. py_int L (py_or (py_or (get d ''reports_received'') (get d ''reports_count''))
                      (PInt 0)) = Inr n)"
  unfolding map_input_to_row_def Let_def
  by (auto split: sum.splits option.splits)

text \<open>
  C9. For every input dictionary: when \<open>user_id\<close> is present and \<open>int()\<close> accepts the
  photo count and the three activity numbers, \<open>map_input_to_row\<close> returns a row, and its
  \<open>interests_count\<close> is 5 for the boolean true, 0 for the boolean false,
  \<open>clamp(n, 0, 5)\<close> for an integer \<open>n\<close>, and 0 for a value of any other type and for an
  absent field, so it is always in [0, 5]; in every other case the function raises and
  there is no row.
\<close>

theorem interests_count_normalized:
  "(if d ''user_id'' \<noteq> None \<and>
       (\<exists>n. py_int L (get_default d ''photos'' (PInt 0)) = Inr n) \<and>
       (\<exists>n. py_int L (py_or (py_or (get d ''login_streak_days'') (get d ''login_streak''))
                        (PInt 0)) = Inr n) \<and>
       (\<exists>n. py_int L (py_or (py_or (get d ''response_rate_pct'') (get d ''response_rate''))
                        (PInt 0)) = Inr n) \<and>
       (\<exists>n. py_int L (py_or (py_or (get d ''reports_received'') (get d ''reports_count''))
                        (PInt 0)) = Inr n)
    then \<exists>row. map_input_to_row L d = Inr row \<and>
           interests_count row =
             (case d ''interests'' of
                Some (PBool b) \<Rightarrow> (if b then 5 else 0)
              | Some (PInt n) \<Rightarrow> max 0 (min 5 n)
              | _ \<Rightarrow> 0) \<and>
           0 \<le> interests_count row \<and> interests_count row \<le> 5
    else \<exists>e. map_input_to_row L d = Inl e)"
proof (cases "\<exists>row. map_input_to_row L d = Inr row")
  case True
  then obtain row where row: "map_input_to_row L d = Inr row" ..
  from True have c: "d ''user_id'' \<noteq> None \<and>
       (\<exists>n. py_int L (get_default d ''photos'' (PInt 0)) = Inr n) \<and>
       (\<exists>n. py_int L (py_or (py_or (get d ''login_streak_days'') (get d ''login_streak''))
                        (PInt 0)) = Inr n) \<and>
       (\<exists>n. py_int L (py_or (py_or (get d ''response_rate_pct'') (get d ''response_rate''))
                        (PInt 0)) = Inr n) \<and>
       (\<exists>n. py_int L (py_or (py_or (get d ''reports_received'') (get d ''reports_count''))
                        (PInt 0)) = Inr n)"
    using map_input_to_row_returns [of L d] by blast
  from interests_count_of_dict [OF row] row
  have "\<exists>row. map_input_to_row L d = Inr row \<and>
           interests_count row =
             (case d ''interests'' of
                Some (PBool b) \<Rightarrow> (if b then 5 else 0)
              | Some (PInt n) \<Rightarrow> max 0 (min 5 n)
              | _ \<Rightarrow> 0) \<and>
           0 \<le> interests_count row \<and> interests_count row \<le> 5"
    by blast
  then show ?thesis unfolding if_P [OF c] .
next
  case False
  from False have c: "\<not> (d ''user_id'' \<noteq> None \<and>
       (\<exists>n. py_int L (get_default d ''photos'' (PInt 0)) = Inr n) \<and>
       (\<exists>n. py_int L (py_or (py_or (get d ''login_streak_days'') (get d ''login_streak''))
                        (PInt 0)) = Inr n) \<and>
       (\<exists>n. py_int L (py_or (py_or (get d ''response_rate_pct'') (get d ''response_rate''))
                        (PInt 0)) = Inr n) \<and>
       (\<exists>n. py_int L (py_or (py_or (get d ''reports_received'') (get d ''reports_count''))
                        (PInt 0)) = Inr n))"
    using map_input_to_row_returns [of L d] by blast
  from False have "\<exists>e. map_input_to_row L d = Inl e"
    by (cases "map_input_to_row L d") auto
  then show ?thesis unfolding if_not_P [OF c] .
qed

text \<open>
  The demo user with each kind of \<open>interests\<close> value: true, false, integers inside,
  above and below the range, a string, a float, and no field at all; and the demo user
  without \<open>user_id\<close>, for which there is no row.
\<close>

theorem interests_count_normalized_witness:
  "(\<exists>row. map_input_to_row utc_stdlib sample = Inr row \<and> interests_count row = 5) \<and>
   (\<exists>row. map_input_to_row utc_stdlib (sample(''interests'' \<mapsto> PBool False)) = Inr row \<and>
      interests_count row = 0) \<and>
   (\<exists>row. map_input_to_row utc_stdlib (sample(''interests'' \<mapsto> PInt 3)) = Inr row \<and>
      interests_count row = 3) \<and>
   (\<exists>row. map_input_to_row utc_stdlib (sample(''interests'' \<mapsto> PInt 7)) = Inr row \<and>
      interests_count row = 5) \<and>
   (\<exists>row. map_input_to_row utc_stdlib (sample(''interests'' \<mapsto> PInt (- 2))) = Inr row \<and>
      interests_count row = 0) \<and>
   (\<exists>row. map_input_to_row utc_stdlib (sample(''interests'' \<mapsto> PStr ''hiking'')) = Inr row \<and>
      interests_count row = 0) \<and>
   (\<exists>row. map_input_to_row utc_stdlib (sample(''interests'' \<mapsto> PFloat (Finite 2))) = Inr row \<and>
      interests_count row = 0) \<and>
   (\<exists>row. map_input_to_row utc_stdlib (sample(''interests'' := None)) = Inr row \<and>
      interests_count row = 0) \<and>
   (\<exists>e. map_input_to_row utc_stdlib (sample(''user_id'' := None)) = Inl e)"
proof -
  have 1: "\<exists>row. map_input_to_row utc_stdlib sample = Inr row \<and> interests_count row = 5"
    using interests_count_normalized [of sample utc_stdlib]
    by (auto simp add: sample_def get_def get_default_def py_or_def)
  have 2: "\<exists>row. map_input_to_row utc_stdlib (sample(''interests'' \<mapsto> PBool False)) = Inr row
      \<and> interests_count row = 0"
    using interests_count_normalized [of "sample(''interests'' \<mapsto> PBool False)" utc_stdlib]
    by (auto simp add: sample_def get_def get_default_def py_or_def)
  have 3: "\<exists>row. map_input_to_row utc_stdlib (sample(''interests'' \<mapsto> PInt 3)) = Inr row
      \<and> interests_count row = 3"
    using interests_count_normalized [of "sample(''interests'' \<mapsto> PInt 3)" utc_stdlib]
    by (auto simp add: sample_def get_def get_default_def py_or_def)
  have 4: "\<exists>row. map_input_to_row utc_stdlib (sample(''interests'' \<mapsto> PInt 7)) = Inr row
      \<and> interests_count row = 5"
    using interests_count_normalized [of "sample(''interests'' \<mapsto> PInt 7)" utc_stdlib]
    by (auto simp add: sample_def get_def get_default_def py_or_def)
  have 5: "\<exists>row. map_input_to_row utc_stdlib (sample(''interests'' \<mapsto> PInt (- 2))) = Inr row
      \<and> interests_count row = 0"
    using interests_count_normalized [of "sample(''interests'' \<mapsto> PInt (- 2))" utc_stdlib]
    by (auto simp add: sample_def get_def get_default_def py_or_def)
  have 6: "\<exists>row. map_input_to_row utc_stdlib (sample(''interests'' \<mapsto> PStr ''hiking'')) = Inr row
      \<and> interests_count row = 0"
    using interests_count_normalized [of "sample(''interests'' \<mapsto> PStr ''hiking'')" utc_stdlib]
    by (auto simp add: sample_def get_def get_default_def py_or_def)
  have 7: "\<exists>row. map_input_to_row utc_stdlib (sample(''interests'' \<mapsto> PFloat (Finite 2))) = Inr row
      \<and> interests_count row = 0"
    using interests_count_normalized [of "sample(''interests'' \<mapsto> PFloat (Finite 2))" utc_stdlib]
    by (auto simp add: sample_def get_def get_default_def py_or_def)
  have 8: "\<exists>row. map_input_to_row utc_stdlib (sample(''interests'' := None)) = Inr row
      \<and> interests_count row = 0"
    using interests_count_normalized [of "sample(''interests'' := None)" utc_stdlib]
    by (auto simp add: sample_def get_def get_default_def py_or_def)
  have 9: "\<exists>e. map_input_to_row utc_stdlib (sample(''user_id'' := None)) = Inl e"
    using interests_count_normalized [of "sample(''user_id'' := None)" utc_stdlib]
    by (auto simp add: sample_def get_def get_default_def py_or_def)
  from 1 2 3 4 5 6 7 8 9 show ?thesis by blast
qed

text \<open>Without \<open>user_id\<close> there is no row: the function raises \<open>KeyError\<close>.\<close>

lemma map_input_to_row_KeyError:
  "d ''user_id'' = None \<Longrightarrow> map_input_to_row L d = Inl KeyError"
  by (simp add: map_input_to_row_def)

section \<open>Persisting a score\<close>

text \<open>
  C5. The claim is that the score upsert and the audit append of one job are one atomic
  transaction. On the worker's connection they are two statements, each committed as it
  completes: when the audit insert raises, the new score is already in the committed
  database and the audit trail has no entry for it.
\<close>

theorem score_persisted_without_audit:
  "upsert_trust_score_and_audit (Some 1) (100::int) ''user_28'' 87 ''{}'' (queue_of [])
     = (\<lparr>recompute_jobs = [], trust_scores = [''user_28'' \<mapsto> (87, 100)], trust_score_audit = []\<rparr>,
        Inl OperationalError)"
  by (simp add: upsert_trust_score_and_audit_def queue_of_def)

section \<open>The job queue\<close>

text \<open>
  C7. The claim is that among pending jobs of equal enqueue time the smallest identifier
  is claimed. The query of \<open>claim_job\<close> orders by \<open>enqueued_at\<close> alone; where the
  engine yields job 2 before job 1, both enqueued at 5, job 2 is claimed.
\<close>

theorem claim_takes_larger_id_on_tie:
  "snd (claim_job False ''w1'' (queue_of [new_job 2 ''u2'' (5::int), new_job 1 ''u1'' 5]))
     = Inr (Some \<lparr>claimed_id = 2, claimed_user_id = ''u2'', claimed_enqueued_at = 5,
                  claimed_attempts = 1\<rparr>)"
  by (simp add: claim_job_def select_oldest_pending_def pending_def update_claimed_def
      new_job_def queue_of_def)

lemma select_oldest_pending_Some:
  assumes "select_oldest_pending jobs = Some j"
  shows "j \<in> set jobs \<and> pending j \<and> (\<forall>k\<in>set jobs. pending k \<longrightarrow> enqueued_at j \<le> enqueued_at k)"
proof -
  let ?s = "sort_key enqueued_at (filter pending jobs)"
  from assms obtain js where s: "?s = j # js"
    by (auto simp: select_oldest_pending_def split: list.splits)
  have "sorted (map enqueued_at ?s)" by simp
  with s have le: "\<forall>k\<in>set ?s. enqueued_at j \<le> enqueued_at k" by auto
  have "set ?s = {k \<in> set jobs. pending k}" by simp
  with s le show ?thesis by (metis (mono_tags, lifting) list.set_intros(1) mem_Collect_eq)
qed

lemma select_oldest_pending_None:
  "select_oldest_pending jobs = None \<longleftrightarrow> (\<forall>k\<in>set jobs. \<not> pending k)"
proof -
  have "select_oldest_pending jobs = None \<longleftrightarrow> sort_key enqueued_at (filter pending jobs) = []"
    by (simp add: select_oldest_pending_def split: list.splits)
  also have "\<dots> \<longleftrightarrow> set (sort_key enqueued_at (filter pending jobs)) = {}" by (simp only: set_empty)
  also have "\<dots> \<longleftrightarrow> (\<forall>k\<in>set jobs. \<not> pending k)" by auto
  finally show ?thesis .
qed

lemma claim_job_jobs:
  "recompute_jobs (fst (claim_job busy w d)) = recompute_jobs d \<or>
   (\<exists>jid. recompute_jobs (fst (claim_job busy w d)) = update_claimed w jid (recompute_jobs d))"
  by (auto simp: claim_job_def Let_def split: option.splits)

lemma apply_op_jobs:
  "recompute_jobs (apply_op op d) = recompute_jobs d \<or>
   (\<exists>f. recompute_jobs (apply_op op d) = map f (recompute_jobs d) \<and>
        (\<forall>j. job_id (f j) = job_id j) \<and>
        (\<forall>j. processed (f j) = processed j \<and> (processing j \<noteq> 0 \<longrightarrow> processing (f j) \<noteq> 0)
             \<or> terminal (f j) \<and> \<not> (marks_claimed op d \<and> j \<in> set (recompute_jobs d) \<and> terminal j)))"
proof (cases op)
  case (Claim busy w)
  from claim_job_jobs [of busy w d] show ?thesis
  proof
    assume "recompute_jobs (fst (claim_job busy w d)) = recompute_jobs d"
    with Claim show ?thesis by simp
  next
    assume "\<exists>jid. recompute_jobs (fst (claim_job busy w d)) = update_claimed w jid (recompute_jobs d)"
    then obtain jid where "recompute_jobs (fst (claim_job busy w d)) = update_claimed w jid (recompute_jobs d)" ..
    with Claim show ?thesis
      by (intro disjI2 exI [of _ "\<lambda>j. if job_id j = jid
              then j\<lparr>processing := 1, processor := Some w, attempts := attempts j + 1\<rparr> else j"])
         (simp add: update_claimed_def)
  qed
next
  case (MarkDone now jid)
  then show ?thesis
    by (intro disjI2 exI [of _ "\<lambda>j. if job_id j = jid
              then j\<lparr>processed := 1, processed_at := Some now, processing := 0\<rparr> else j"])
       (auto simp: mark_job_done_def terminal_def list_all_iff)
next
  case (MarkFailed now jid err)
  then show ?thesis
    by (intro disjI2 exI [of _ "\<lambda>j. if job_id j = jid
              then j\<lparr>processed := 2, last_error := Some err, processed_at := Some now,
                         processing := 0\<rparr> else j"])
       (auto simp: mark_job_failed_def terminal_def list_all_iff)
qed

lemma apply_op_ids:
  "map job_id (recompute_jobs (apply_op op d)) = map job_id (recompute_jobs d)"
  using apply_op_jobs [of op d] by (auto simp: comp_def)

lemma apply_op_length:
  "length (recompute_jobs (apply_op op d)) = length (recompute_jobs d)"
  using apply_op_ids [of op d] by (metis length_map)

lemma apply_op_nth:
  assumes "i < length (recompute_jobs d)"
  shows "processed (recompute_jobs (apply_op op d) ! i) = processed (recompute_jobs d ! i) \<and>
           (processing (recompute_jobs d ! i) \<noteq> 0 \<longrightarrow>
              processing (recompute_jobs (apply_op op d) ! i) \<noteq> 0)
         \<or> terminal (recompute_jobs (apply_op op d) ! i) \<and>
           \<not> (marks_claimed op d \<and> terminal (recompute_jobs d ! i))"
  using apply_op_jobs [of op d]
proof
  assume "recompute_jobs (apply_op op d) = recompute_jobs d"
  then show ?thesis by simp
next
  assume "\<exists>f. recompute_jobs (apply_op op d) = map f (recompute_jobs d) \<and>
        (\<forall>j. job_id (f j) = job_id j) \<and>
        (\<forall>j. processed (f j) = processed j \<and> (processing j \<noteq> 0 \<longrightarrow> processing (f j) \<noteq> 0)
             \<or> terminal (f j) \<and> \<not> (marks_claimed op d \<and> j \<in> set (recompute_jobs d) \<and> terminal j))"
  then obtain f where m: "recompute_jobs (apply_op op d) = map f (recompute_jobs d)"
    and f: "\<And>j. processed (f j) = processed j \<and> (processing j \<noteq> 0 \<longrightarrow> processing (f j) \<noteq> 0)
             \<or> terminal (f j) \<and> \<not> (marks_claimed op d \<and> j \<in> set (recompute_jobs d) \<and> terminal j)"
    by blast
  from assms have mem: "recompute_jobs d ! i \<in> set (recompute_jobs d)" by simp
  from m assms have n: "recompute_jobs (apply_op op d) ! i = f (recompute_jobs d ! i)" by simp
  from f [of "recompute_jobs d ! i"] mem show ?thesis unfolding n by blast
qed

lemma apply_op_terminal:
  assumes "i < length (recompute_jobs d)" and "terminal (recompute_jobs d ! i)"
  shows "terminal (recompute_jobs (apply_op op d) ! i)"
  using apply_op_nth [OF assms(1), of op] assms(2) by (auto simp: terminal_def)

lemma apply_op_guarded:
  assumes "i < length (recompute_jobs d)" and "terminal (recompute_jobs d ! i)"
    and "marks_claimed op d"
  shows "processed (recompute_jobs (apply_op op d) ! i) = processed (recompute_jobs d ! i)"
  using apply_op_nth [OF assms(1), of op] assms(2,3) by blast

lemma apply_op_reset:
  assumes "k < length (recompute_jobs e)" and "processing (recompute_jobs e ! k) \<noteq> 0"
    and "processing (recompute_jobs (apply_op op e) ! k) = 0"
  shows "terminal (recompute_jobs (apply_op op e) ! k)"
  using apply_op_nth [OF assms(1), of op] assms(2,3) by blast

lemma claim_keeps_processed:
  assumes "i < length (recompute_jobs d)"
  shows "processed (recompute_jobs (apply_op (Claim busy w) d) ! i) = processed (recompute_jobs d ! i)"
  using claim_job_jobs [of busy w d] assms by (auto simp: update_claimed_def)

lemma run_ops_ids:
  "map job_id (recompute_jobs (run_ops ops d)) = map job_id (recompute_jobs d)"
  by (induction ops arbitrary: d) (simp_all add: apply_op_ids)

lemma run_ops_length:
  "length (recompute_jobs (run_ops ops d)) = length (recompute_jobs d)"
  using run_ops_ids [of ops d] by (metis length_map)

lemma run_ops_terminal:
  "i < length (recompute_jobs d) \<Longrightarrow> terminal (recompute_jobs d ! i) \<Longrightarrow>
     terminal (recompute_jobs (run_ops ops d) ! i)"
  by (induction ops arbitrary: d) (simp_all add: apply_op_terminal apply_op_length)

lemma run_ops_guarded:
  "i < length (recompute_jobs d) \<Longrightarrow> terminal (recompute_jobs d ! i) \<Longrightarrow> well_marked ops d \<Longrightarrow>
     processed (recompute_jobs (run_ops ops d) ! i) = processed (recompute_jobs d ! i)"
proof (induction ops arbitrary: d)
  case Nil
  then show ?case by simp
next
  case (Cons op ops)
  from Cons.prems have g: "marks_claimed op d" and w: "well_marked ops (apply_op op d)" by simp_all
  have "processed (recompute_jobs (run_ops ops (apply_op op d)) ! i)
      = processed (recompute_jobs (apply_op op d) ! i)"
    using Cons.prems(1,2) w by (intro Cons.IH) (simp_all add: apply_op_length apply_op_terminal)
  also have "\<dots> = processed (recompute_jobs d ! i)"
    using Cons.prems(1,2) g by (rule apply_op_guarded)
  finally show ?case by simp
qed

text \<open>
  C6, as amended. Along every sequence of claims and marks the rows keep their
  identifiers and a terminal job stays terminal: \<open>processed\<close> never returns to 0, and a
  claim never changes it. When every mark of the sequence is on a claimed job,
  \<open>processed\<close> of a terminal job never changes at all. In every single step,
  \<open>processing\<close> goes from non-zero to 0 only on a row whose \<open>processed\<close> the step leaves
  at 1 or 2.
\<close>

theorem job_monotonicity:
  "map job_id (recompute_jobs (run_ops ops d)) = map job_id (recompute_jobs d) \<and>
   (i < length (recompute_jobs d) \<and> terminal (recompute_jobs d ! i) \<longrightarrow>
      terminal (recompute_jobs (run_ops ops d) ! i) \<and>
      processed (recompute_jobs (apply_op (Claim busy w) d) ! i) = processed (recompute_jobs d ! i) \<and>
      (well_marked ops d \<longrightarrow>
         processed (recompute_jobs (run_ops ops d) ! i) = processed (recompute_jobs d ! i))) \<and>
   (k < length (recompute_jobs e) \<and> processing (recompute_jobs e ! k) \<noteq> 0 \<and>
      processing (recompute_jobs (apply_op op e) ! k) = 0 \<longrightarrow>
      terminal (recompute_jobs (apply_op op e) ! k))"
  using run_ops_ids [of ops d] run_ops_terminal [of i d ops] claim_keeps_processed [of i d busy w]
    run_ops_guarded [of i d ops] apply_op_reset [of k e op]
  by blast

theorem job_monotonicity_witness:
  "(1::nat) < length (recompute_jobs two_job_queue) \<and>
   terminal (recompute_jobs two_job_queue ! 1) \<and>
   well_marked [Claim False ''w1'', MarkDone 6 1] two_job_queue \<and>
   processed (recompute_jobs (run_ops [Claim False ''w1'', MarkDone 6 1] two_job_queue) ! 1)
     = processed (recompute_jobs two_job_queue ! 1) \<and>
   processing (recompute_jobs (apply_op (Claim False ''w1'') two_job_queue) ! 0) \<noteq> 0 \<and>
   processing (recompute_jobs
       (apply_op (MarkDone 6 1) (apply_op (Claim False ''w1'') two_job_queue)) ! 0) = 0 \<and>
   terminal (recompute_jobs
       (apply_op (MarkDone 6 1) (apply_op (Claim False ''w1'') two_job_queue)) ! 0)"
  using job_monotonicity [of "[Claim False ''w1'', MarkDone 6 1]" two_job_queue 1 False "''w1''"
      0 "apply_op (Claim False ''w1'') two_job_queue" "MarkDone 6 1"]
  by (simp add: two_job_queue_def queue_of_def new_job_def claim_job_def
      select_oldest_pending_def pending_def update_claimed_def mark_job_done_def terminal_def)

text \<open>
  C6 as stated fails: the marks update by id without looking at the row, so marking a
  done job failed changes its \<open>processed\<close> from 1 to 2.
\<close>

theorem done_then_failed_changes_processed:
  "map processed (recompute_jobs
      (run_ops [Claim False ''w1'', MarkDone 6 1] (queue_of [new_job 1 ''u1'' (5::int)]))) = [1]
   \<and> map processed (recompute_jobs
      (run_ops [Claim False ''w1'', MarkDone 6 1, MarkFailed 7 1 ''boom'']
         (queue_of [new_job 1 ''u1'' (5::int)]))) = [2]"
  by (simp add: queue_of_def new_job_def claim_job_def select_oldest_pending_def pending_def
      update_claimed_def mark_job_done_def mark_job_failed_def)

text \<open>The other way round: marking a failed job done changes its \<open>processed\<close> from 2 to 1.\<close>

lemma failed_then_done_changes_processed:
  "map processed (recompute_jobs
      (run_ops [Claim False ''w1'', MarkFailed 6 1 ''boom''] (queue_of [new_job 1 ''u1'' (5::int)])))
     = [2]
   \<and> map processed (recompute_jobs
      (run_ops [Claim False ''w1'', MarkFailed 6 1 ''boom'', MarkDone 7 1]
         (queue_of [new_job 1 ''u1'' (5::int)]))) = [1]"
  by (simp add: queue_of_def new_job_def claim_job_def select_oldest_pending_def pending_def
      update_claimed_def mark_job_done_def mark_job_failed_def)

text \<open>With the same two rows yielded in the other order, job 1 is claimed.\<close>

lemma claim_takes_first_yielded_on_tie:
  "snd (claim_job False ''w1'' (queue_of [new_job 1 ''u1'' (5::int), new_job 2 ''u2'' 5]))
     = Inr (Some \<lparr>claimed_id = 1, claimed_user_id = ''u1'', claimed_enqueued_at = 5,
                  claimed_attempts = 1\<rparr>)"
  by (simp add: claim_job_def select_oldest_pending_def pending_def update_claimed_def
      new_job_def queue_of_def)

text \<open>What the query does fix: the claimed job is pending and none is older.\<close>

lemma claim_job_oldest:
  assumes "claim_job busy w d = (d', Inr (Some c))"
  shows "\<exists>j\<in>set (recompute_jobs d). pending j \<and> claimed_id c = job_id j \<and>
           (\<forall>k\<in>set (recompute_jobs d). pending k \<longrightarrow> enqueued_at j \<le> enqueued_at k)"
proof -
  from assms obtain row where sel: "select_oldest_pending (recompute_jobs d) = Some row"
    and c: "claimed_id c = job_id row"
    by (auto simp: claim_job_def Let_def split: if_splits option.splits dest: find_Some_iff [THEN iffD1])
  from select_oldest_pending_Some [OF sel] c show ?thesis by blast
qed

text \<open>
  Claims that run one after the other: on a queue with a single pending job the first
  claim marks it and returns it, and every later claim finds nothing and changes nothing.
  That claimants in separate processes do run one after the other is the work of the
  storage engine's write lock.
\<close>

lemma single_pending_job_claimed_once:
  assumes "filter pending (recompute_jobs d) = [j]"
  shows "recompute_jobs (fst (claim_job False w d)) = update_claimed w (job_id j) (recompute_jobs d)"
    and "(\<exists>c. snd (claim_job False w d) = Inr (Some c) \<and> claimed_id c = job_id j)"
    and "claim_job busy w2 (fst (claim_job False w d)) = (fst (claim_job False w d), Inr None)"
proof -
  let ?jobs = "recompute_jobs d"
  let ?jobs' = "update_claimed w (job_id j) ?jobs"
  have sel: "select_oldest_pending ?jobs = Some j"
    by (simp add: select_oldest_pending_def assms)
  have "j \<in> set (filter pending ?jobs)" by (simp add: assms)
  then have jin: "j \<in> set ?jobs" by simp
  then have "\<exists>r. find (\<lambda>k. job_id k = job_id j) ?jobs' = Some r \<and> job_id r = job_id j"
    by (cases "find (\<lambda>k. job_id k = job_id j) ?jobs'")
       (auto simp: find_None_iff find_Some_iff update_claimed_def)
  then obtain r where r: "find (\<lambda>k. job_id k = job_id j) ?jobs' = Some r" "job_id r = job_id j"
    by blast
  show 1: "recompute_jobs (fst (claim_job False w d)) = ?jobs'"
    using sel r by (simp add: claim_job_def Let_def)
  show "\<exists>c. snd (claim_job False w d) = Inr (Some c) \<and> claimed_id c = job_id j"
    using sel r by (simp add: claim_job_def Let_def)
  have "\<forall>k\<in>set ?jobs'. \<not> pending k"
  proof
    fix k assume "k \<in> set ?jobs'"
    then obtain k0 where k0: "k0 \<in> set ?jobs"
      and k: "k = (if job_id k0 = job_id j
              then k0\<lparr>processing := 1, processor := Some w, attempts := attempts k0 + 1\<rparr>
              else k0)"
      by (auto simp: update_claimed_def)
    show "\<not> pending k"
    proof (cases "job_id k0 = job_id j")
      case True
      with k show ?thesis by (simp add: pending_def)
    next
      case False
      with k have "k = k0" by simp
      moreover have "\<not> pending k0"
      proof
        assume "pending k0"
        with k0 have "k0 \<in> set (filter pending ?jobs)" by simp
        with assms have "k0 = j" by simp
        with False show False by simp
      qed
      ultimately show ?thesis by simp
    qed
  qed
  then have "select_oldest_pending (recompute_jobs (fst (claim_job False w d))) = None"
    unfolding 1 by (simp add: select_oldest_pending_None)
  then show "claim_job busy w2 (fst (claim_job False w d)) = (fst (claim_job False w d), Inr None)"
    by (simp add: claim_job_def)
qed

end
